theory Spec2Isabelle
  imports Complex_Main
begin

section \<open>Venmo transaction export: the model of main.go\<close>

text \<open>
  The program is one Go function, \<^verbatim>\<open>main\<close>: it parses a cutoff date, writes a CSV
  header, and then fetches pages of transactions until a transaction older than the
  cutoff is met or the feed has no next page. Go strings are byte sequences; they are
  modelled as \<^typ>\<open>string\<close>, a list of 8-bit characters, read as UTF-8.
\<close>

subsection \<open>The string functions of package strings\<close>

definition HasPrefix :: "string \<Rightarrow> string \<Rightarrow> bool" where
  "HasPrefix s pre = (take (length pre) s = pre)"

text \<open>\<^verbatim>\<open>strings.Contains(s, substr)\<close>: some suffix of \<open>s\<close> starts with \<open>substr\<close>.\<close>

fun Contains :: "string \<Rightarrow> string \<Rightarrow> bool" where
  "Contains [] substr = (substr = [])"
| "Contains (c # cs) substr = (HasPrefix (c # cs) substr \<or> Contains cs substr)"

text \<open>
  \<^verbatim>\<open>strings.ToLower\<close> on the ASCII letters. On other runes Go applies the Unicode
  lower-case mapping; no rune outside ASCII is mapped to one of the letters of
  \<^verbatim>\<open>transfer\<close> (the only non-ASCII runes with an ASCII lower case are U+0130 and
  U+212A, mapped to \<^verbatim>\<open>i\<close> and \<^verbatim>\<open>k\<close>), and the bytes of a multi-byte UTF-8
  sequence are never ASCII, so the one use the program makes of the result, the
  search for \<^verbatim>\<open>transfer\<close>, is decided by the ASCII mapping alone.
\<close>

definition lower :: "char \<Rightarrow> char" where
  "lower c = (let n = (of_char c :: nat) in if 65 \<le> n \<and> n \<le> 90 then char_of (n + 32) else c)"

definition ToLower :: "string \<Rightarrow> string" where
  "ToLower s = map lower s"

text \<open>
  \<^verbatim>\<open>strings.ReplaceAll(s, old, new)\<close>: the non-overlapping occurrences of \<open>old\<close> are
  replaced from left to right. The counter is the number of bytes of the current
  occurrence still to be dropped. The program only calls it with a one-byte \<open>old\<close>.
\<close>

fun replaceFrom :: "nat \<Rightarrow> string \<Rightarrow> string \<Rightarrow> string \<Rightarrow> string" where
  "replaceFrom k [] old new = (if old = [] then new else [])"
| "replaceFrom (Suc k) (c # cs) old new = replaceFrom k cs old new"
| "replaceFrom 0 (c # cs) old new =
     (if HasPrefix (c # cs) old then new @ replaceFrom (length old - 1) cs old new
      else c # replaceFrom 0 cs old new)"

definition ReplaceAll :: "string \<Rightarrow> string \<Rightarrow> string \<Rightarrow> string" where
  "ReplaceAll s old new = replaceFrom 0 s old new"

text \<open>
  \<^verbatim>\<open>strings.TrimSpace\<close> removes the leading and trailing white space of Unicode:
  the ASCII characters tab, line feed, vertical tab, form feed, carriage return and
  space, and the runes U+0085, U+00A0, U+1680, U+2000 to U+200A, U+2028, U+2029,
  U+202F, U+205F and U+3000, here in their UTF-8 encodings.
\<close>

definition asciiSpace :: "char \<Rightarrow> bool" where
  "asciiSpace c = (c \<in> {CHR 0x09, CHR 0x0A, CHR 0x0B, CHR 0x0C, CHR 0x0D, CHR 0x20})"

definition space2 :: "string list" where
  "space2 = [[CHR 0xC2, CHR 0x85], [CHR 0xC2, CHR 0xA0]]"

definition space3 :: "string list" where
  "space3 = [[CHR 0xE1, CHR 0x9A, CHR 0x80]] @
     map (\<lambda>b. [CHR 0xE2, CHR 0x80, b])
       [CHR 0x80, CHR 0x81, CHR 0x82, CHR 0x83, CHR 0x84, CHR 0x85, CHR 0x86, CHR 0x87,
        CHR 0x88, CHR 0x89, CHR 0x8A, CHR 0xA8, CHR 0xA9, CHR 0xAF] @
     [[CHR 0xE2, CHR 0x81, CHR 0x9F], [CHR 0xE3, CHR 0x80, CHR 0x80]]"

fun trimLeft :: "string list \<Rightarrow> string list \<Rightarrow> string \<Rightarrow> string" where
  "trimLeft e2 e3 [] = []"
| "trimLeft e2 e3 (c # cs) =
     (if asciiSpace c then trimLeft e2 e3 cs
      else if take 2 (c # cs) \<in> set e2 then trimLeft e2 e3 (drop 1 cs)
      else if take 3 (c # cs) \<in> set e3 then trimLeft e2 e3 (drop 2 cs)
      else c # cs)"

definition TrimSpace :: "string \<Rightarrow> string" where
  "TrimSpace s =
     rev (trimLeft (map rev space2) (map rev space3) (rev (trimLeft space2 space3 s)))"

subsection \<open>Floating-point values and their formatting\<close>

text \<open>
  A \<^verbatim>\<open>float64\<close> is a sign and a magnitude, an infinity, or not a number. The sign
  is kept apart from the magnitude because Go prints a negative zero as \<^verbatim>\<open>-0.00\<close>.
  The magnitudes that occur are exact values of binary floating-point numbers, so
  they are rationals.
\<close>

datatype float64 = Finite bool rat | Infinity bool | NaN

definition zero64 :: float64 where
  "zero64 = Finite False 0"

text \<open>The product \<^verbatim>\<open>-1 * amount\<close> is exact: it flips the sign.\<close>

fun negate :: "float64 \<Rightarrow> float64" where
  "negate (Finite neg m) = Finite (\<not> neg) m"
| "negate (Infinity neg) = Infinity (\<not> neg)"
| "negate NaN = NaN"

definition roundHalfEven :: "rat \<Rightarrow> int" where
  "roundHalfEven q =
     (let f = \<lfloor>q\<rfloor>; d = q - of_int f in
      if d < 1 / 2 then f else if 1 / 2 < d then f + 1 else if even f then f else f + 1)"

definition digitChar :: "nat \<Rightarrow> char" where
  "digitChar n = ''0123456789'' ! n"

fun itoa :: "nat \<Rightarrow> string" where
  "itoa n = (if n < 10 then [digitChar n] else itoa (n div 10) @ [digitChar (n mod 10)])"

declare itoa.simps [simp del]

text \<open>
  \<^verbatim>\<open>strconv.FormatFloat(amount, 'f', 2, 64)\<close>: the exact value rounded to two
  decimals, ties to even, printed without exponent.
\<close>

fun FormatFloat :: "float64 \<Rightarrow> string" where
  "FormatFloat (Finite neg m) =
     (let c = nat (roundHalfEven (m * 100)) in
      (if neg then ''-'' else '''') @ itoa (c div 100) @ ''.'' @
      [digitChar (c mod 100 div 10), digitChar (c mod 10)])"
| "FormatFloat (Infinity neg) = (if neg then ''-Inf'' else ''+Inf'')"
| "FormatFloat NaN = ''NaN''"

declare FormatFloat.simps [simp del]

subsection \<open>The data model\<close>

record NoteStruct =
  Name :: string
  Content :: string

record PayloadStruct =
  SubType :: string

record PartyStruct =
  DisplayName :: string
  Username :: string

record TitleStruct =
  Payload :: PayloadStruct
  Receiver :: PartyStruct
  Sender :: PartyStruct

record Transaction =
  ID :: string
  Amount :: string
  Date :: string
  Type :: string
  Note :: NoteStruct
  Title :: TitleStruct

record ResponseData =
  NextID :: string
  Stories :: "Transaction list"

subsection \<open>The environment of a run\<close>

text \<open>
  The standard library and the operating system are the environment of \<^verbatim>\<open>main\<close>:
  \<^item> \<open>time_Parse layout value\<close> is \<^verbatim>\<open>time.Parse\<close>; its result is the instant in
    nanoseconds since the Unix epoch, \<open>None\<close> when it returns an error;
  \<^item> \<open>ParseFloat32 s\<close> is \<^verbatim>\<open>strconv.ParseFloat(s, 32)\<close>, \<open>None\<close> when it returns an
    error;
  \<^item> \<open>write_fails n\<close> tells whether the call of \<^verbatim>\<open>writer.Write\<close> made after \<open>n\<close>
    records have been written returns an error.
  The theorems about the driver hold for every environment; \<open>std_env\<close> below is the
  one used to run the model on concrete inputs.
\<close>

record env =
  time_Parse :: "string \<Rightarrow> string \<Rightarrow> int option"
  ParseFloat32 :: "string \<Rightarrow> float64 option"
  write_fails :: "nat \<Rightarrow> bool"

definition RFC3339 :: string where
  "RFC3339 = ''2006-01-02T15:04:05Z07:00''"

text \<open>
  What one request of the loop meets: \<^verbatim>\<open>http.NewRequest\<close> fails, \<^verbatim>\<open>client.Do\<close>
  fails, \<^verbatim>\<open>io.ReadAll\<close> fails, or a response arrives with a status code and a body
  that \<^verbatim>\<open>json.Unmarshal\<close> decodes (\<open>Some\<close>) or rejects (\<open>None\<close>).
\<close>

datatype http_outcome =
  NewRequestError
| DoError
| ReadAllError
| Response int "ResponseData option"

text \<open>The messages of package log, which go to standard error.\<close>

datatype diag =
  FailedParseEndDate string
| FailedWriteHeaders
| FailedCreateRequest
| FailedHTTPRequest
| FailedReadBody
| FailedFetch int
| FailedParseJSON
| FailedParseTransactionDate string
| FailedParseAmount string
| FailedWriteTransaction

text \<open>
  Standard output receives the lines of \<^verbatim>\<open>fmt.Println\<close> and the records that the
  CSV writer flushes. The serialisation of a record is left to the CSV library.
\<close>

datatype out_item = Line string | Row "string list"

record world =
  stdout :: "out_item list"
  stderr :: "diag list"
  pending :: "string list list"
  requests :: "string list"

definition world0 :: world where
  "world0 = \<lparr>stdout = [], stderr = [], pending = [], requests = []\<rparr>"

definition Println :: "string \<Rightarrow> world \<Rightarrow> world" where
  "Println s w = w\<lparr>stdout := stdout w @ [Line s]\<rparr>"

definition log_Printf :: "diag \<Rightarrow> world \<Rightarrow> world" where
  "log_Printf d w = w\<lparr>stderr := stderr w @ [d]\<rparr>"

text \<open>\<^verbatim>\<open>writer.Flush()\<close> moves the buffered records to standard output.\<close>

definition Flush :: "world \<Rightarrow> world" where
  "Flush w = w\<lparr>stdout := stdout w @ map Row (pending w), pending := []\<rparr>"

fun rows_of :: "out_item list \<Rightarrow> string list list" where
  "rows_of [] = []"
| "rows_of (Line s # xs) = rows_of xs"
| "rows_of (Row r # xs) = r # rows_of xs"

text \<open>The records written so far, flushed or still in the buffer.\<close>

definition records :: "world \<Rightarrow> string list list" where
  "records w = rows_of (stdout w) @ pending w"

text \<open>\<^verbatim>\<open>writer.Write(record)\<close> buffers the record, or reports an error (\<open>None\<close>).\<close>

definition csv_Write :: "env \<Rightarrow> string list \<Rightarrow> world \<Rightarrow> world option" where
  "csv_Write e r w =
     (if write_fails e (length (records w)) then None
      else Some (w\<lparr>pending := pending w @ [r]\<rparr>))"

subsection \<open>Classification of one transaction\<close>

text \<open>
  Lines 125 to 137 of main.go: the date is parsed with the RFC 3339 layout, and with
  the layout without time zone when that fails.
\<close>

definition parseTransactionDate :: "env \<Rightarrow> string \<Rightarrow> int option" where
  "parseTransactionDate e d =
     (case time_Parse e RFC3339 d of
        Some t \<Rightarrow> Some t
      | None \<Rightarrow> time_Parse e ''2006-01-02T15:04:05'' d)"

text \<open>Lines 155 to 159: the amount string handed to \<^verbatim>\<open>strconv.ParseFloat\<close>.\<close>

definition amountStr :: "string \<Rightarrow> string" where
  "amountStr a =
     TrimSpace (ReplaceAll (ReplaceAll (ReplaceAll (ReplaceAll a ''$'' '''') '','' '''')
       ''+'' '''') ''-'' '''')"

text \<open>
  Lines 145 to 181: the amount, the type and the note of the row, or the warning
  logged when the amount of a payment does not parse (the \<^verbatim>\<open>continue\<close> of line 163).
  \<^verbatim>\<open>fmt.Sprintf\<close> with two \<^verbatim>\<open>%s\<close> verbs is a concatenation.
\<close>

definition classify :: "env \<Rightarrow> Transaction \<Rightarrow> diag + (float64 \<times> string \<times> string)" where
  "classify e story =
     (if Contains (ToLower (Type story)) ''transfer'' then
        Inr (zero64, ''Transfer'',
             ''Transfer '' @ Name (Note story) @ '' | '' @ Amount story)
      else if Type story = ''payment'' then
        (case ParseFloat32 e (amountStr (Amount story)) of
           None \<Rightarrow> Inl (FailedParseAmount (amountStr (Amount story)))
         | Some parsed \<Rightarrow>
             (let amount = (if Contains (Amount story) ''-'' then negate parsed else parsed) in
              if DisplayName (Sender (Title story)) = ''you'' then
                (let receiver =
                   (if DisplayName (Receiver (Title story)) = ''''
                    then Username (Receiver (Title story))
                    else DisplayName (Receiver (Title story)))
                 in Inr (amount, ''Payment'',
                         ''To '' @ receiver @ '' | '' @ Content (Note story)))
              else
                (let sender =
                   (if DisplayName (Sender (Title story)) = ''''
                    then Username (Sender (Title story))
                    else DisplayName (Sender (Title story)))
                 in Inr (amount, ''Payment'',
                         ''From '' @ sender @ '' | '' @ Content (Note story)))))
      else Inr (zero64, '''', ''''))"

text \<open>Lines 184 to 189: the record written for a classified transaction.\<close>

definition record_of :: "Transaction \<Rightarrow> float64 \<times> string \<times> string \<Rightarrow> string list" where
  "record_of story r =
     (case r of (amount, transActionType, note) \<Rightarrow>
        [FormatFloat amount, Date story, transActionType, note])"

subsection \<open>The driver\<close>

text \<open>
  How the body of the inner loop ends: it goes on with the next transaction
  (\<^verbatim>\<open>continue\<close> or the end of the body), \<^verbatim>\<open>main\<close> returns (line 142), or
  \<^verbatim>\<open>log.Fatalf\<close> exits with status 1.
\<close>

datatype control = Next | Return | Exit

definition processStory :: "env \<Rightarrow> int \<Rightarrow> Transaction \<Rightarrow> world \<Rightarrow> control \<times> world" where
  "processStory e endDateParsed story w =
     (case parseTransactionDate e (Date story) of
        None \<Rightarrow> (Next, log_Printf (FailedParseTransactionDate (Date story)) w)
      | Some transactionDate \<Rightarrow>
          if transactionDate < endDateParsed
          then (Return, Println ''Reached end date, stopping.'' w)
          else
            (case classify e story of
               Inl d \<Rightarrow> (Next, log_Printf d w)
             | Inr r \<Rightarrow>
                 (case csv_Write e (record_of story r) w of
                    None \<Rightarrow> (Exit, log_Printf FailedWriteTransaction w)
                  | Some w' \<Rightarrow> (Next, Flush w'))))"

fun processStories :: "env \<Rightarrow> int \<Rightarrow> Transaction list \<Rightarrow> world \<Rightarrow> control \<times> world" where
  "processStories e endDateParsed [] w = (Next, w)"
| "processStories e endDateParsed (story # rest) w =
     (case processStory e endDateParsed story w of
        (Next, w') \<Rightarrow> processStories e endDateParsed rest w'
      | (Return, w') \<Rightarrow> (Return, w')
      | (Exit, w') \<Rightarrow> (Exit, w'))"

definition venmoApiUrl :: string where
  "venmoApiUrl = ''https://account.venmo.com/api/stories?feedType=me''"

definition request_url :: "string \<Rightarrow> string \<Rightarrow> string" where
  "request_url externalId nextID =
     venmoApiUrl @ ''&externalId='' @ externalId @
     (if nextID \<noteq> '''' then ''&nextId='' @ nextID else '''')"

definition sent :: "string \<Rightarrow> world \<Rightarrow> world" where
  "sent url w = w\<lparr>requests := requests w @ [url]\<rparr>"

text \<open>
  Lines 76 to 202: the outer loop, run against the outcomes of the successive
  requests. The result is the exit status and the final world. A return from
  \<^verbatim>\<open>main\<close> runs the deferred \<^verbatim>\<open>writer.Flush()\<close>; \<^verbatim>\<open>log.Fatalf\<close> calls \<^verbatim>\<open>os.Exit(1)\<close>,
  which does not. The loop has no bound of its own: it runs for as long as the
  server returns a next cursor. \<open>None\<close> is a run that is still fetching when the
  given outcomes are used up.
\<close>

fun fetchLoop ::
  "env \<Rightarrow> string \<Rightarrow> int \<Rightarrow> http_outcome list \<Rightarrow> string \<Rightarrow> world \<Rightarrow> (nat \<times> world) option"
where
  "fetchLoop e externalId endDateParsed [] nextID w = None"
| "fetchLoop e externalId endDateParsed (r # rs) nextID w =
     (case r of
        NewRequestError \<Rightarrow> Some (1, log_Printf FailedCreateRequest w)
      | DoError \<Rightarrow>
          Some (1, log_Printf FailedHTTPRequest (sent (request_url externalId nextID) w))
      | ReadAllError \<Rightarrow>
          Some (1, log_Printf FailedReadBody (sent (request_url externalId nextID) w))
      | Response StatusCode body \<Rightarrow>
          if StatusCode \<noteq> 200
          then Some (1, log_Printf (FailedFetch StatusCode)
                          (sent (request_url externalId nextID) w))
          else
            (case body of
               None \<Rightarrow>
                 Some (1, log_Printf FailedParseJSON (sent (request_url externalId nextID) w))
             | Some data \<Rightarrow>
                 (case processStories e endDateParsed (Stories data)
                         (sent (request_url externalId nextID) w) of
                    (Return, w') \<Rightarrow> Some (0, Flush w')
                  | (Exit, w') \<Rightarrow> Some (1, w')
                  | (Next, w') \<Rightarrow>
                      if NextID data = ''''
                      then Some (0, Flush (Println ''No more transactions to fetch.'' w'))
                      else fetchLoop e externalId endDateParsed rs (NextID data) w')))"

definition headers :: "string list" where
  "headers = [''Amount'', ''Date'', ''Note Name'', ''Note Date'']"

text \<open>
  \<^verbatim>\<open>main\<close>, from \<^verbatim>\<open>os.Args\<close> (the program name and the arguments) and the outcomes of
  the requests. The cookie is only copied into a request header.
\<close>

definition main :: "env \<Rightarrow> string list \<Rightarrow> http_outcome list \<Rightarrow> (nat \<times> world) option" where
  "main e Args outcomes =
     (if length Args \<noteq> 4
      then Some (1, Println
        ''Usage: go run main.go <external_id> <stop_transaction_date> <cookie>'' world0)
      else
        (let externalId = Args ! 1; endDate = Args ! 2 in
         case time_Parse e ''2006-01-02'' endDate of
           None \<Rightarrow> Some (1, log_Printf (FailedParseEndDate endDate) world0)
         | Some endDateParsed \<Rightarrow>
             (case csv_Write e headers world0 of
                None \<Rightarrow> Some (1, log_Printf FailedWriteHeaders world0)
              | Some w \<Rightarrow> fetchLoop e externalId endDateParsed outcomes '''' w)))"

subsection \<open>The standard library: \<^verbatim>\<open>strconv.ParseFloat\<close> at 32 bits\<close>

text \<open>
  The syntax is that of Go's \<^verbatim>\<open>readFloat\<close>: an optional sign, a decimal or (after
  \<^verbatim>\<open>0x\<close>) hexadecimal mantissa with at most one point, an exponent (\<^verbatim>\<open>e\<close>, or the
  mandatory \<^verbatim>\<open>p\<close> of a hexadecimal mantissa), underscores between digits; or one of
  the words \<^verbatim>\<open>inf\<close>, \<^verbatim>\<open>infinity\<close> and \<^verbatim>\<open>nan\<close> in any case. The value is the
  exact value of the literal rounded to the nearest \<^verbatim>\<open>float32\<close>, ties to even, as the
  documentation of \<^verbatim>\<open>ParseFloat\<close> promises. A value that rounds beyond the largest
  \<^verbatim>\<open>float32\<close> is a range error; a value too small is rounded to a subnormal or zero.
  (Go keeps the first 800 digits of a decimal mantissa and notes whether a non-zero
  digit follows; the model keeps them all.)
\<close>

definition isDigit :: "char \<Rightarrow> bool" where
  "isDigit c = (let n = (of_char c :: nat) in 48 \<le> n \<and> n \<le> 57)"

definition isHexLetter :: "char \<Rightarrow> bool" where
  "isHexLetter c = (let n = (of_char (lower c) :: nat) in 97 \<le> n \<and> n \<le> 102)"

definition digitVal :: "char \<Rightarrow> nat" where
  "digitVal c = (if isDigit c then of_char c - 48 else of_char (lower c) - 87)"

definition cutSign :: "string \<Rightarrow> bool \<times> string" where
  "cutSign s =
     (case s of
        [] \<Rightarrow> (False, [])
      | c # cs \<Rightarrow>
          if c = CHR ''+'' then (False, cs)
          else if c = CHR ''-'' then (True, cs)
          else (False, s))"

definition special :: "string \<Rightarrow> float64 option" where
  "special s =
     (let word = ToLower (snd (cutSign s)) in
      if word = ''inf'' \<or> word = ''infinity'' then Some (Infinity (fst (cutSign s)))
      else if ToLower s = ''nan'' then Some NaN
      else None)"

text \<open>
  The mantissa: its digits as a number in the base, the number of digits after the
  point, whether a point and whether a digit was seen, and the rest of the input.
\<close>

fun scanMantissa ::
  "nat \<Rightarrow> string \<Rightarrow> nat \<times> nat \<times> bool \<times> bool \<Rightarrow> (nat \<times> nat \<times> bool \<times> bool) \<times> string"
where
  "scanMantissa base [] st = (st, [])"
| "scanMantissa base (c # cs) (m, fd, sawdot, sawdigits) =
     (if c = CHR ''_'' then scanMantissa base cs (m, fd, sawdot, sawdigits)
      else if c = CHR ''.'' then
        (if sawdot then ((m, fd, sawdot, sawdigits), c # cs)
         else scanMantissa base cs (m, fd, True, sawdigits))
      else if isDigit c \<or> (base = 16 \<and> isHexLetter c) then
        scanMantissa base cs
          (m * base + digitVal c, (if sawdot then fd + 1 else fd), sawdot, True)
      else ((m, fd, sawdot, sawdigits), c # cs))"

text \<open>The digits of the exponent; Go stops accumulating at 10000.\<close>

fun scanExp :: "string \<Rightarrow> nat \<Rightarrow> nat \<times> string" where
  "scanExp [] e = (e, [])"
| "scanExp (c # cs) e =
     (if c = CHR ''_'' then scanExp cs e
      else if isDigit c then scanExp cs (if e < 10000 then e * 10 + digitVal c else e)
      else (e, c # cs))"

fun underscoreScan :: "bool \<Rightarrow> char \<Rightarrow> string \<Rightarrow> bool" where
  "underscoreScan hex saw [] = (saw \<noteq> CHR ''_'')"
| "underscoreScan hex saw (c # cs) =
     (if isDigit c \<or> (hex \<and> isHexLetter c) then underscoreScan hex (CHR ''0'') cs
      else if c = CHR ''_'' then (saw = CHR ''0'' \<and> underscoreScan hex (CHR ''_'') cs)
      else if saw = CHR ''_'' then False
      else underscoreScan hex (CHR ''!'') cs)"

definition underscoreOK :: "string \<Rightarrow> bool" where
  "underscoreOK s =
     (let t = snd (cutSign s) in
      if 2 \<le> length t \<and> hd t = CHR ''0'' \<and> lower (t ! 1) \<in> {CHR ''b'', CHR ''o'', CHR ''x''}
      then underscoreScan (lower (t ! 1) = CHR ''x'') (CHR ''0'') (drop 2 t)
      else underscoreScan False (CHR ''^'') t)"

definition pow :: "rat \<Rightarrow> int \<Rightarrow> rat" where
  "pow b k = (if 0 \<le> k then b ^ nat k else 1 / b ^ nat (- k))"

text \<open>
  The exponent after the exponent character: an optional sign and digits up to the
  end of the string.
\<close>

definition readExp :: "string \<Rightarrow> int option" where
  "readExp cs =
     (case cs of
        [] \<Rightarrow> None
      | d # ds \<Rightarrow>
          (let digits = (if d = CHR ''+'' \<or> d = CHR ''-'' then ds else cs) in
           if digits = [] \<or> \<not> isDigit (hd digits) then None
           else
             (case scanExp digits 0 of
                (ex, rest) \<Rightarrow>
                  if rest \<noteq> [] then None
                  else Some (if d = CHR ''-'' then - int ex else int ex))))"

text \<open>
  The sign and the exact magnitude of a well-formed literal that fills the whole
  string, \<open>None\<close> on a syntax error.
\<close>

definition readFloat :: "string \<Rightarrow> (bool \<times> rat) option" where
  "readFloat s =
     (let t = snd (cutSign s);
          hex = (2 < length t \<and> hd t = CHR ''0'' \<and> lower (t ! 1) = CHR ''x'');
          base = (if hex then 16 else 10)
      in
      case scanMantissa base (if hex then drop 2 t else t) (0, 0, False, False) of
        ((m, fd, sawdot, sawdigits), rest) \<Rightarrow>
          if \<not> sawdigits then None
          else if CHR ''_'' \<in> set s \<and> \<not> underscoreOK s then None
          else
            (case rest of
               [] \<Rightarrow>
                 if hex then None
                 else Some (fst (cutSign s), of_int (int m) * pow 10 (- int fd))
             | c # cs \<Rightarrow>
                 if lower c \<noteq> (if hex then CHR ''p'' else CHR ''e'') then None
                 else
                   (case readExp cs of
                      None \<Rightarrow> None
                    | Some x \<Rightarrow>
                        Some (fst (cutSign s),
                          if hex then of_int (int m) * pow 16 (- int fd) * pow 2 x
                          else of_int (int m) * pow 10 (x - int fd)))))"

fun bitlen :: "nat \<Rightarrow> nat" where
  "bitlen n = (if n = 0 then 0 else Suc (bitlen (n div 2)))"

declare bitlen.simps [simp del]

text \<open>
  The exponent \<open>k\<close> with \<open>2 ^ k \<le> q < 2 ^ (k + 1)\<close>, for a positive \<open>q\<close>: from the
  number of bits of the integer part when \<open>1 \<le> q\<close>, and of the inverse otherwise.
\<close>

definition floorLog2 :: "rat \<Rightarrow> int" where
  "floorLog2 q =
     (if 1 \<le> q then int (bitlen (nat \<lfloor>q\<rfloor>)) - 1
      else - int (bitlen (nat (\<lceil>1 / q\<rceil> - 1))))"

text \<open>
  The nearest \<^verbatim>\<open>float32\<close> to a magnitude: 24 bits of precision, the least exponent of
  the last bit being -149.
\<close>

definition roundFloat32 :: "rat \<Rightarrow> rat" where
  "roundFloat32 q =
     (if q \<le> 0 then 0
      else (let p = max (floorLog2 q - 23) (- 149) in
            of_int (roundHalfEven (q / pow 2 p)) * pow 2 p))"

definition std_ParseFloat32 :: "string \<Rightarrow> float64 option" where
  "std_ParseFloat32 s =
     (case special s of
        Some f \<Rightarrow> Some f
      | None \<Rightarrow>
          (case readFloat s of
             None \<Rightarrow> None
           | Some (neg, q) \<Rightarrow>
               (let r = roundFloat32 q in
                if 2 ^ 128 \<le> r then None else Some (Finite neg r))))"

subsection \<open>The standard library: \<^verbatim>\<open>time.Parse\<close> for the three layouts of the program\<close>

text \<open>
  \<^verbatim>\<open>time.Parse\<close> reads the value field by field along the layout: a year of four
  digits, a month and a day of two digits, an hour of one or two digits, minutes and
  seconds of two digits, an optional fraction of a second after the seconds, and for
  \<^verbatim>\<open>Z07:00\<close> either \<^verbatim>\<open>Z\<close> or a signed offset \<^verbatim>\<open>hh:mm\<close>. Nothing may follow. The
  fields are checked against their ranges and the day against the month. A value
  without zone is read as UTC. Layouts other than the three of the program are not
  modelled (\<open>None\<close>).
\<close>

definition getnum2 :: "string \<Rightarrow> (nat \<times> string) option" where
  "getnum2 s =
     (case s of
        a # b # rest \<Rightarrow>
          if isDigit a \<and> isDigit b then Some (digitVal a * 10 + digitVal b, rest) else None
      | _ \<Rightarrow> None)"

definition getnum :: "string \<Rightarrow> (nat \<times> string) option" where
  "getnum s =
     (case s of
        [] \<Rightarrow> None
      | a # rest \<Rightarrow>
          if \<not> isDigit a then None
          else if rest \<noteq> [] \<and> isDigit (hd rest)
          then Some (digitVal a * 10 + digitVal (hd rest), tl rest)
          else Some (digitVal a, rest))"

definition getYear :: "string \<Rightarrow> (nat \<times> string) option" where
  "getYear s =
     (if length s < 4 \<or> \<not> list_all isDigit (take 4 s) then None
      else Some (foldl (\<lambda>n c. n * 10 + digitVal c) 0 (take 4 s), drop 4 s))"

definition skip :: "char \<Rightarrow> string \<Rightarrow> string option" where
  "skip c s = (case s of [] \<Rightarrow> None | x # xs \<Rightarrow> if x = c then Some xs else None)"

definition isLeap :: "int \<Rightarrow> bool" where
  "isLeap y = (y mod 4 = 0 \<and> (y mod 100 \<noteq> 0 \<or> y mod 400 = 0))"

definition daysIn :: "nat \<Rightarrow> int \<Rightarrow> nat" where
  "daysIn m y =
     (if m = 2 then (if isLeap y then 29 else 28)
      else if m \<in> {4, 6, 9, 11} then 30 else 31)"

text \<open>The days from 1970-01-01 to a date of the proleptic Gregorian calendar.\<close>

definition daysFromCivil :: "int \<Rightarrow> int \<Rightarrow> int \<Rightarrow> int" where
  "daysFromCivil y m d =
     (let y' = (if m \<le> 2 then y - 1 else y);
          era = y' div 400;
          yoe = y' - era * 400;
          doy = (153 * (if 2 < m then m - 3 else m + 9) + 2) div 5 + d - 1;
          doe = yoe * 365 + yoe div 4 - yoe div 100 + doy
      in era * 146097 + doe - 719468)"

text \<open>The date: the days since the epoch and the rest of the input.\<close>

definition parseYMD :: "string \<Rightarrow> (int \<times> string) option" where
  "parseYMD s =
     Option.bind (getYear s) (\<lambda>(y, s1).
     Option.bind (skip (CHR ''-'') s1) (\<lambda>s2.
     Option.bind (getnum2 s2) (\<lambda>(m, s3).
     Option.bind (skip (CHR ''-'') s3) (\<lambda>s4.
     Option.bind (getnum2 s4) (\<lambda>(d, s5).
       if m < 1 \<or> 12 < m \<or> d < 1 \<or> daysIn m (int y) < d then None
       else Some (daysFromCivil (int y) (int m) (int d), s5))))))"

text \<open>The nanoseconds of a fraction, from its digits: nine digits count.\<close>

definition nanos :: "string \<Rightarrow> nat" where
  "nanos ds = foldl (\<lambda>n c. n * 10 + digitVal c) 0 (take 9 ds) * 10 ^ (9 - length (take 9 ds))"

definition parseFraction :: "string \<Rightarrow> nat \<times> string" where
  "parseFraction s =
     (case s of
        c # d # rest \<Rightarrow>
          if (c = CHR ''.'' \<or> c = CHR '','') \<and> isDigit d
          then (nanos (takeWhile isDigit (d # rest)), dropWhile isDigit (d # rest))
          else (0, s)
      | _ \<Rightarrow> (0, s))"

text \<open>The time of day after \<^verbatim>\<open>T\<close>, in nanoseconds, and the rest of the input.\<close>

definition parseClock :: "string \<Rightarrow> (int \<times> string) option" where
  "parseClock s =
     Option.bind (skip (CHR ''T'') s) (\<lambda>s1.
     Option.bind (getnum s1) (\<lambda>(h, s2).
     Option.bind (skip (CHR '':'') s2) (\<lambda>s3.
     Option.bind (getnum2 s3) (\<lambda>(mi, s4).
     Option.bind (skip (CHR '':'') s4) (\<lambda>s5.
     Option.bind (getnum2 s5) (\<lambda>(sec, s6).
       if 24 \<le> h \<or> 60 \<le> mi \<or> 60 \<le> sec then None
       else (case parseFraction s6 of
               (ns, s7) \<Rightarrow>
                 Some ((int h * 3600 + int mi * 60 + int sec) * 1000000000 + int ns, s7))))))))"

text \<open>The zone \<^verbatim>\<open>Z07:00\<close>: the offset from UTC in seconds, and the rest of the input.\<close>

definition parseZone :: "string \<Rightarrow> (int \<times> string) option" where
  "parseZone s =
     (if s \<noteq> [] \<and> hd s = CHR ''Z'' then Some (0, tl s)
      else if length s < 6 \<or> s ! 3 \<noteq> CHR '':'' then None
      else
        Option.bind (getnum2 (take 2 (drop 1 s))) (\<lambda>(hr, _).
        Option.bind (getnum2 (take 2 (drop 4 s))) (\<lambda>(mm, _).
          if 24 < hr \<or> 60 < mm then None
          else if hd s = CHR ''+'' then Some ((int hr * 60 + int mm) * 60, drop 6 s)
          else if hd s = CHR ''-'' then Some (- ((int hr * 60 + int mm) * 60), drop 6 s)
          else None)))"

definition std_time_Parse :: "string \<Rightarrow> string \<Rightarrow> int option" where
  "std_time_Parse layout v =
     (if layout = ''2006-01-02'' then
        Option.bind (parseYMD v) (\<lambda>(days, rest).
          if rest = [] then Some (days * 86400 * 1000000000) else None)
      else if layout = ''2006-01-02T15:04:05'' then
        Option.bind (parseYMD v) (\<lambda>(days, s1).
        Option.bind (parseClock s1) (\<lambda>(ns, rest).
          if rest = [] then Some (days * 86400 * 1000000000 + ns) else None))
      else if layout = RFC3339 then
        Option.bind (parseYMD v) (\<lambda>(days, s1).
        Option.bind (parseClock s1) (\<lambda>(ns, s2).
        Option.bind (parseZone s2) (\<lambda>(offset, rest).
          if rest = [] then Some (days * 86400 * 1000000000 + ns - offset * 1000000000)
          else None)))
      else None)"

definition std_env :: env where
  "std_env = \<lparr>time_Parse = std_time_Parse, ParseFloat32 = std_ParseFloat32,
              write_fails = (\<lambda>n. False)\<rparr>"

subsection \<open>The words of the specification\<close>

text \<open>
  The definitions of this subsection follow the specification, not the code; the
  theorems compare them with the code.

  Two characters are the same letter when they are equal or are the upper-case and
  the lower-case form of one of the twenty-six letters. A string contains a word
  case-insensitively when one of its substrings matches the word letter by letter.
\<close>

definition upper_letters :: string where
  "upper_letters = ''ABCDEFGHIJKLMNOPQRSTUVWXYZ''"

definition lower_letters :: string where
  "lower_letters = ''abcdefghijklmnopqrstuvwxyz''"

definition same_letter :: "char \<Rightarrow> char \<Rightarrow> bool" where
  "same_letter a b =
     (a = b \<or> (a, b) \<in> set (zip upper_letters lower_letters) \<or>
      (b, a) \<in> set (zip upper_letters lower_letters))"

definition contains_ci :: "string \<Rightarrow> string \<Rightarrow> bool" where
  "contains_ci s w = (\<exists>u m v. s = u @ m @ v \<and> list_all2 same_letter m w)"





text \<open>The counterparty: the display name, or the user name when that is empty.\<close>

definition counterparty :: "PartyStruct \<Rightarrow> string" where
  "counterparty p = (if DisplayName p = '''' then Username p else DisplayName p)"

text \<open>A transaction whose date parses and is strictly earlier than the cutoff.\<close>

definition before_cutoff :: "env \<Rightarrow> int \<Rightarrow> Transaction \<Rightarrow> bool" where
  "before_cutoff e D s =
     (case parseTransactionDate e (Date s) of None \<Rightarrow> False | Some t \<Rightarrow> t < D)"

text \<open>
  The row of a transaction that is not before the cutoff: none when its date does not
  parse, none when it is a payment whose amount does not parse.
\<close>

definition row_of :: "env \<Rightarrow> Transaction \<Rightarrow> string list option" where
  "row_of e s =
     (case parseTransactionDate e (Date s) of
        None \<Rightarrow> None
      | Some t \<Rightarrow> (case classify e s of Inl d \<Rightarrow> None | Inr r \<Rightarrow> Some (record_of s r)))"

text \<open>The rows of a feed: those of the transactions before the first one before the cutoff.\<close>

definition rows_until_cutoff :: "env \<Rightarrow> int \<Rightarrow> Transaction list \<Rightarrow> string list list" where
  "rows_until_cutoff e D ss =
     List.map_filter (row_of e) (takeWhile (\<lambda>s. \<not> before_cutoff e D s) ss)"

text \<open>A page that arrives with status 200 and a body that decodes.\<close>

definition fetched :: "ResponseData \<Rightarrow> http_outcome" where
  "fetched p = Response 200 (Some p)"

subsection \<open>Test data\<close>

definition story0 :: Transaction where
  "story0 =
     \<lparr>ID = ''4001'', Amount = ''-$5.00'', Date = ''2024-10-04T13:28:52Z'', Type = ''payment'',
      Note = \<lparr>Name = '''', Content = ''lunch''\<rparr>,
      Title = \<lparr>Payload = \<lparr>SubType = ''p2p''\<rparr>,
               Receiver = \<lparr>DisplayName = '''', Username = ''janedoe''\<rparr>,
               Sender = \<lparr>DisplayName = ''you'', Username = ''me''\<rparr>\<rparr>\<rparr>"


definition args0 :: "string list" where
  "args0 = [''main'', ''1234567890'', ''2021-01-01'', ''cookie'']"

definition url0 :: string where
  "url0 = ''https://account.venmo.com/api/stories?feedType=me&externalId=1234567890''"

section \<open>Properties\<close>

subsection \<open>Strings\<close>

lemma HasPrefix_iff: "HasPrefix s pre \<longleftrightarrow> (\<exists>v. s = pre @ v)"
proof
  assume "HasPrefix s pre"
  then have "s = pre @ drop (length pre) s"
    by (metis HasPrefix_def append_take_drop_id)
  then show "\<exists>v. s = pre @ v" ..
next
  assume "\<exists>v. s = pre @ v"
  then show "HasPrefix s pre" by (auto simp: HasPrefix_def)
qed

lemma Contains_iff: "Contains s sub \<longleftrightarrow> (\<exists>u v. s = u @ sub @ v)"
proof (induction s)
  case Nil
  show ?case by auto
next
  case (Cons c cs)
  show ?case
  proof
    assume "Contains (c # cs) sub"
    then consider "HasPrefix (c # cs) sub" | "Contains cs sub" by auto
    then show "\<exists>u v. c # cs = u @ sub @ v"
    proof cases
      case 1
      then obtain v where "c # cs = sub @ v" by (auto simp: HasPrefix_iff)
      then have "c # cs = [] @ sub @ v" by simp
      then show ?thesis by blast
    next
      case 2
      then obtain u v where "cs = u @ sub @ v" using Cons.IH by auto
      then have "c # cs = (c # u) @ sub @ v" by simp
      then show ?thesis by blast
    qed
  next
    assume "\<exists>u v. c # cs = u @ sub @ v"
    then obtain u v where uv: "c # cs = u @ sub @ v" by auto
    show "Contains (c # cs) sub"
    proof (cases u)
      case Nil
      with uv have "HasPrefix (c # cs) sub" by (auto simp: HasPrefix_iff)
      then show ?thesis by simp
    next
      case (Cons a u')
      with uv have "cs = u' @ sub @ v" by simp
      then have "Contains cs sub" using Cons.IH by auto
      then show ?thesis by simp
    qed
  qed
qed

lemma Contains_map_iff:
  "Contains (map f s) t \<longleftrightarrow> (\<exists>u m v. s = u @ m @ v \<and> map f m = t)"
proof
  assume "Contains (map f s) t"
  then obtain u' v' where eq: "map f s = u' @ t @ v'"
    by (auto simp: Contains_iff)
  define m where "m = take (length t) (drop (length u') s)"
  have "map f m = take (length t) (drop (length u') (map f s))"
    by (simp add: m_def take_map drop_map)
  also have "\<dots> = t"
    by (simp add: eq)
  finally have low: "map f m = t" .
  have "s = take (length u') s @ m @ drop (length t) (drop (length u') s)"
    by (simp only: m_def append_take_drop_id)
  with low show "\<exists>u m v. s = u @ m @ v \<and> map f m = t"
    by blast
next
  assume "\<exists>u m v. s = u @ m @ v \<and> map f m = t"
  then obtain u m v where "s = u @ m @ v" and "map f m = t"
    by blast
  then have "map f s = map f u @ t @ map f v"
    by simp
  then show "Contains (map f s) t"
    unfolding Contains_iff by blast
qed

text \<open>
  The lower-case mapping of the code against the letters of the specification: a
  character is mapped to a lower-case letter exactly when it is that letter in one
  of its two cases.
\<close>

lemma lower_eq_iff:
  "lower a = b \<longleftrightarrow>
     (if 65 \<le> (of_char a :: nat) \<and> (of_char a :: nat) \<le> 90
      then (of_char b :: nat) = of_char a + 32 else a = b)"
proof (cases "65 \<le> (of_char a :: nat) \<and> (of_char a :: nat) \<le> 90")
  case True
  then have "take_bit 8 (of_char a + 32 :: nat) = of_char a + 32"
    by (simp add: take_bit_nat_eq_self_iff)
  with True show ?thesis
    by (auto simp: lower_def char_of_eq_iff)
next
  case False
  then show ?thesis by (auto simp: lower_def)
qed

lemma upper_codes:
  "(of_char a :: nat) = 84 \<longleftrightarrow> a = CHR ''T''"
  "(of_char a :: nat) = 82 \<longleftrightarrow> a = CHR ''R''"
  "(of_char a :: nat) = 65 \<longleftrightarrow> a = CHR ''A''"
  "(of_char a :: nat) = 78 \<longleftrightarrow> a = CHR ''N''"
  "(of_char a :: nat) = 83 \<longleftrightarrow> a = CHR ''S''"
  "(of_char a :: nat) = 70 \<longleftrightarrow> a = CHR ''F''"
  "(of_char a :: nat) = 69 \<longleftrightarrow> a = CHR ''E''"
  using of_char_eq_iff [of a "CHR ''T''", where ?'a = nat]
    of_char_eq_iff [of a "CHR ''R''", where ?'a = nat]
    of_char_eq_iff [of a "CHR ''A''", where ?'a = nat]
    of_char_eq_iff [of a "CHR ''N''", where ?'a = nat]
    of_char_eq_iff [of a "CHR ''S''", where ?'a = nat]
    of_char_eq_iff [of a "CHR ''F''", where ?'a = nat]
    of_char_eq_iff [of a "CHR ''E''", where ?'a = nat]
  by simp_all

lemma same_letter_lower:
  assumes "b \<in> set ''transfer''"
  shows "same_letter a b \<longleftrightarrow> lower a = b"
proof -
  from assms consider "b = CHR ''t''" | "b = CHR ''r''" | "b = CHR ''a''" | "b = CHR ''n''"
    | "b = CHR ''s''" | "b = CHR ''f''" | "b = CHR ''e''"
    by auto
  then show ?thesis
    by cases
      (auto simp: lower_eq_iff upper_codes same_letter_def upper_letters_def lower_letters_def)
qed

lemma list_all2_same_letter:
  "\<forall>b \<in> set w. \<forall>a. same_letter a b \<longleftrightarrow> lower a = b \<Longrightarrow>
   list_all2 same_letter m w \<longleftrightarrow> map lower m = w"
  by (induction w arbitrary: m) (auto simp: list_all2_Cons2)

lemma Contains_transfer_iff:
  "Contains (ToLower s) ''transfer'' \<longleftrightarrow> contains_ci s ''transfer''"
proof -
  have "\<forall>b \<in> set ''transfer''. \<forall>a. same_letter a b \<longleftrightarrow> lower a = b"
    using same_letter_lower by blast
  then have "\<And>m. list_all2 same_letter m ''transfer'' \<longleftrightarrow> map lower m = ''transfer''"
    by (rule list_all2_same_letter)
  then show ?thesis
    by (simp add: ToLower_def Contains_map_iff contains_ci_def)
qed



lemma Contains_single: "Contains s [c] \<longleftrightarrow> c \<in> set s"
  by (induction s) (auto simp: HasPrefix_def)












subsection \<open>The output of the driver\<close>

lemma rows_of_append: "rows_of (xs @ ys) = rows_of xs @ rows_of ys"
  by (induction xs rule: rows_of.induct) auto

lemma rows_of_Row: "rows_of (map Row rs) = rs"
  by (induction rs) auto

lemma records_Flush: "records (Flush w) = records w"
  by (simp add: records_def Flush_def rows_of_append rows_of_Row)

lemma records_Println: "records (Println s w) = records w"
  by (simp add: records_def Println_def rows_of_append)

lemma records_log_Printf: "records (log_Printf d w) = records w"
  by (simp add: records_def log_Printf_def)

lemma records_sent: "records (sent u w) = records w"
  by (simp add: records_def sent_def)

lemma rows_of_stdout_Flush: "rows_of (stdout (Flush w)) = records w"
  by (simp add: records_def Flush_def rows_of_append rows_of_Row)

lemma pending_Flush: "pending (Flush w) = []"
  by (simp add: Flush_def)

lemma requests_Flush: "requests (Flush w) = requests w"
  by (simp add: Flush_def)

lemma requests_Println: "requests (Println s w) = requests w"
  by (simp add: Println_def)

lemma requests_log_Printf: "requests (log_Printf d w) = requests w"
  by (simp add: log_Printf_def)

lemma requests_sent: "requests (sent u w) = requests w @ [u]"
  by (simp add: sent_def)

lemma csv_Write_ok:
  "\<not> write_fails e (length (records w)) \<Longrightarrow>
   csv_Write e r w = Some (w\<lparr>pending := pending w @ [r]\<rparr>)"
  by (simp add: csv_Write_def)

lemma records_pending_update: "records (w\<lparr>pending := pending w @ [r]\<rparr>) = records w @ [r]"
  by (simp add: records_def)

text \<open>One transaction, when the writes succeed.\<close>

lemma processStory_run:
  assumes "\<And>n. \<not> write_fails e n"
  shows "processStory e D s w =
     (if before_cutoff e D s then (Return, Println ''Reached end date, stopping.'' w)
      else (Next,
        case parseTransactionDate e (Date s) of
          None \<Rightarrow> log_Printf (FailedParseTransactionDate (Date s)) w
        | Some t \<Rightarrow>
            (case classify e s of
               Inl d \<Rightarrow> log_Printf d w
             | Inr r \<Rightarrow> Flush (w\<lparr>pending := pending w @ [record_of s r]\<rparr>))))"
  using assms
  by (auto simp: processStory_def before_cutoff_def csv_Write_def
           split: option.splits sum.splits)

lemma processStory_records:
  assumes "\<And>n. \<not> write_fails e n" and "processStory e D s w = (c, w')"
  shows "c = (if before_cutoff e D s then Return else Next) \<and>
         records w' = records w @
           (if before_cutoff e D s then [] else
              (case row_of e s of None \<Rightarrow> [] | Some r \<Rightarrow> [r])) \<and>
         requests w' = requests w"
  using assms(2) unfolding processStory_run [OF assms(1)]
  by (auto simp: row_of_def records_Println records_log_Printf records_Flush
        records_pending_update requests_Println requests_log_Printf requests_Flush
        split: if_splits option.splits sum.splits)

lemma processStories_records:
  assumes "\<And>n. \<not> write_fails e n"
  shows "processStories e D ss w = (c, w') \<Longrightarrow>
         c = (if \<exists>s \<in> set ss. before_cutoff e D s then Return else Next) \<and>
         records w' = records w @ rows_until_cutoff e D ss \<and>
         requests w' = requests w"
proof (induction ss arbitrary: w)
  case Nil
  then show ?case
    by (simp add: rows_until_cutoff_def List.map_filter_def)
next
  case (Cons s ss)
  obtain c1 w1 where step: "processStory e D s w = (c1, w1)"
    by (cases "processStory e D s w")
  note one = processStory_records [OF assms step]
  show ?case
  proof (cases "before_cutoff e D s")
    case True
    with one have "c1 = Return" by simp
    with Cons.prems step have "c = Return" "w' = w1" by auto
    with one True show ?thesis
      by (simp add: rows_until_cutoff_def List.map_filter_def)
  next
    case False
    with one have c1: "c1 = Next" by simp
    with Cons.prems step have "processStories e D ss w1 = (c, w')" by simp
    from Cons.IH [OF this] one False show ?thesis
      by (simp add: rows_until_cutoff_def split: option.splits)
  qed
qed

lemma takeWhile_concat_Cons:
  "\<forall>x \<in> set xs. P x \<Longrightarrow> takeWhile P (xs @ ys) = xs @ takeWhile P ys"
  by (induction xs) auto

lemma takeWhile_stop:
  "\<exists>x \<in> set xs. \<not> P x \<Longrightarrow> takeWhile P (xs @ ys) = takeWhile P xs"
  by (induction xs) auto

lemma rows_until_cutoff_append:
  "rows_until_cutoff e D (xs @ ys) =
     (if \<exists>s \<in> set xs. before_cutoff e D s then rows_until_cutoff e D xs
      else rows_until_cutoff e D xs @ rows_until_cutoff e D ys)"
proof (cases "\<exists>s \<in> set xs. before_cutoff e D s")
  case True
  then have "\<exists>s \<in> set xs. \<not> \<not> before_cutoff e D s" by simp
  from takeWhile_stop [of xs "\<lambda>s. \<not> before_cutoff e D s", OF this] True
  show ?thesis by (simp add: rows_until_cutoff_def)
next
  case False
  then have all: "\<forall>s \<in> set xs. \<not> before_cutoff e D s" by simp
  then have tw: "takeWhile (\<lambda>s. \<not> before_cutoff e D s) xs = xs"
    by (simp add: takeWhile_eq_all_conv)
  have tw2: "takeWhile (\<lambda>s. \<not> before_cutoff e D s) (xs @ ys) =
      xs @ takeWhile (\<lambda>s. \<not> before_cutoff e D s) ys"
    using all by (rule takeWhile_concat_Cons)
  show ?thesis
    using False by (simp add: rows_until_cutoff_def List.map_filter_def tw tw2)
qed

text \<open>
  The loop on a feed whose pages all arrive: every page but the last has a next
  cursor and no transaction before the cutoff; the last page has an empty cursor or a
  transaction before the cutoff. Outcomes after the last page are never asked for.
\<close>

lemma fetchLoop_run:
  assumes wr: "\<And>n. \<not> write_fails e n"
  shows "pages \<noteq> [] \<Longrightarrow>
     \<forall>p \<in> set (butlast pages).
        NextID p \<noteq> '''' \<and> (\<forall>s \<in> set (Stories p). \<not> before_cutoff e D s) \<Longrightarrow>
     NextID (last pages) = '''' \<or> (\<exists>s \<in> set (Stories (last pages)). before_cutoff e D s) \<Longrightarrow>
     \<exists>w'. fetchLoop e ext D (map fetched pages @ rest) nextID w = Some (0, w') \<and>
          rows_of (stdout w') = records w @ rows_until_cutoff e D (concat (map Stories pages)) \<and>
          pending w' = [] \<and>
          length (requests w') = length (requests w) + length pages"
proof (induction pages arbitrary: w nextID)
  case Nil
  then show ?case by simp
next
  case (Cons p ps)
  let ?w1 = "sent (request_url ext nextID) w"
  obtain c w2 where run: "processStories e D (Stories p) ?w1 = (c, w2)"
    by (cases "processStories e D (Stories p) ?w1")
  from processStories_records [OF wr run]
  have c: "c = (if \<exists>s \<in> set (Stories p). before_cutoff e D s then Return else Next)"
    and recs: "records w2 = records w @ rows_until_cutoff e D (Stories p)"
    and reqs: "requests w2 = requests w @ [request_url ext nextID]"
    by (simp_all add: records_sent requests_sent)
  show ?case
  proof (cases "ps = []")
    case True
    show ?thesis
    proof (cases "\<exists>s \<in> set (Stories p). before_cutoff e D s")
      case stop: True
      with c have "c = Return" by simp
      with run have "fetchLoop e ext D (map fetched (p # ps) @ rest) nextID w = Some (0, Flush w2)"
        by (simp add: fetched_def)
      with recs reqs True show ?thesis
        by (simp add: rows_of_stdout_Flush pending_Flush requests_Flush)
    next
      case False
      with c have "c = Next" by simp
      moreover from False Cons.prems(3) True have "NextID p = ''''" by simp
      ultimately have "fetchLoop e ext D (map fetched (p # ps) @ rest) nextID w =
          Some (0, Flush (Println ''No more transactions to fetch.'' w2))"
        using run by (simp add: fetched_def)
      with recs reqs True show ?thesis
        by (simp add: rows_of_stdout_Flush pending_Flush requests_Flush
              records_Println requests_Println)
    qed
  next
    case False
    with Cons.prems(2) have p: "NextID p \<noteq> ''''" "\<forall>s \<in> set (Stories p). \<not> before_cutoff e D s"
      by auto
    with c have "c = Next" by auto
    with run p have step: "fetchLoop e ext D (map fetched (p # ps) @ rest) nextID w =
        fetchLoop e ext D (map fetched ps @ rest) (NextID p) w2"
      by (simp add: fetched_def)
    from False Cons.prems(2) have b: "\<forall>p \<in> set (butlast ps).
        NextID p \<noteq> '''' \<and> (\<forall>s \<in> set (Stories p). \<not> before_cutoff e D s)"
      by auto
    from False Cons.prems(3) have l: "NextID (last ps) = '''' \<or>
        (\<exists>s \<in> set (Stories (last ps)). before_cutoff e D s)"
      by simp
    from Cons.IH [OF False b l, of "NextID p" w2]
    obtain w' where "fetchLoop e ext D (map fetched ps @ rest) (NextID p) w2 = Some (0, w')"
      and "rows_of (stdout w') = records w2 @ rows_until_cutoff e D (concat (map Stories ps))"
      and "pending w' = []"
      and "length (requests w') = length (requests w2) + length ps"
      by blast
    with step recs reqs p(2) show ?thesis
      by (simp add: rows_until_cutoff_append)
  qed
qed

subsection \<open>Running the library functions on concrete inputs\<close>

lemma floor_rat_numeral: "\<lfloor>numeral a / numeral b :: rat\<rfloor> = numeral a div numeral b"
  by (metis floor_divide_of_int_eq of_int_numeral)

lemma ceiling_rat_numeral:
  "\<lceil>numeral a / numeral b :: rat\<rceil> = - (- numeral a div numeral b)"
  using ceiling_divide_eq_div [of "numeral a" "numeral b", where ?'a = rat] by simp

lemmas format_simps = FormatFloat.simps roundHalfEven_def itoa.simps digitChar_def Let_def
  floor_rat_numeral

lemmas parse_simps = std_ParseFloat32_def special_def readFloat_def readExp_def cutSign_def
  ToLower_def lower_def isDigit_def isHexLetter_def digitVal_def pow_def roundFloat32_def
  floorLog2_def bitlen.simps roundHalfEven_def Let_def floor_rat_numeral ceiling_rat_numeral

lemmas time_simps = std_time_Parse_def RFC3339_def parseYMD_def parseClock_def parseZone_def
  parseFraction_def getYear_def getnum_def getnum2_def skip_def isDigit_def digitVal_def
  daysIn_def isLeap_def daysFromCivil_def nanos_def

lemmas strip_simps = amountStr_def ReplaceAll_def HasPrefix_def TrimSpace_def asciiSpace_def
  space2_def space3_def

lemma payment_not_transfer: "\<not> Contains (ToLower ''payment'') ''transfer''"
  by (simp add: ToLower_def lower_def HasPrefix_def)

lemma FormatFloat_zero64: "FormatFloat zero64 = ''0.00''"
  by (simp add: zero64_def format_simps)

lemma FormatFloat_5: "FormatFloat (Finite True 5) = ''-5.00''"
  by (simp add: format_simps)



lemma FormatFloat_big: "FormatFloat (Finite False 123456792) = ''123456792.00''"
  by (simp add: format_simps)

lemma ParseFloat32_5: "std_ParseFloat32 ''5.00'' = Some (Finite False 5)"
  by (simp add: parse_simps)



lemma ParseFloat32_big: "std_ParseFloat32 ''123456789.12'' = Some (Finite False 123456792)"
  by (simp add: parse_simps)

lemma ParseFloat32_NA: "std_ParseFloat32 ''N/A'' = None"
  by (simp add: parse_simps)

lemma amountStr_examples:
  "amountStr ''-$1,234.56'' = ''1234.56''"
  "amountStr ''+$20.00'' = ''20.00''"
  "amountStr ''-$5.00'' = ''5.00''"
  "amountStr ''$123456789.12'' = ''123456789.12''"
  "amountStr ''N/A'' = ''N/A''"
  by (simp_all add: strip_simps)


lemma time_Parse_examples:
  "std_time_Parse ''2006-01-02'' ''2021-01-01'' = Some 1609459200000000000"
  "std_time_Parse RFC3339 ''2024-10-04T13:28:52Z'' = Some 1728048532000000000"
  "std_time_Parse RFC3339 ''2021-01-01T00:00:00Z'' = Some 1609459200000000000"
  "std_time_Parse RFC3339 ''2020-12-31T23:59:59Z'' = Some 1609459199000000000"
  "std_time_Parse RFC3339 ''yesterday'' = None"
  "std_time_Parse ''2006-01-02T15:04:05'' ''yesterday'' = None"
  by (simp_all add: time_simps)

subsection \<open>Classification\<close>

text \<open>
  C5. A transaction whose type contains \<^verbatim>\<open>transfer\<close> in any case gets the type
  \<^verbatim>\<open>Transfer\<close>, the amount zero, printed \<^verbatim>\<open>0.00\<close>, and the note
  \<^verbatim>\<open>Transfer <note.name> | <amount string>\<close>. The amount string is not parsed: the
  result is the same in an environment whose number parser rejects every string.
  So it is for the types \<^verbatim>\<open>p2p_transfer\<close>, \<^verbatim>\<open>Standard_TRANSFER\<close> and
  \<^verbatim>\<open>bank TrAnSfEr out\<close>.
\<close>

theorem transfer_classification:
  assumes "contains_ci (Type story) ''transfer''"
  shows "classify e story =
           Inr (zero64, ''Transfer'', ''Transfer '' @ Name (Note story) @ '' | '' @ Amount story) \<and>
         record_of story
             (zero64, ''Transfer'', ''Transfer '' @ Name (Note story) @ '' | '' @ Amount story) =
           [''0.00'', Date story, ''Transfer'',
            ''Transfer '' @ Name (Note story) @ '' | '' @ Amount story] \<and>
         classify (e\<lparr>ParseFloat32 := (\<lambda>s. None)\<rparr>) story = classify e story \<and>
         classify e (story\<lparr>Type := ''p2p_transfer'', Amount := ''$100.00'',
                          Note := \<lparr>Name = ''Bank'', Content = Content (Note story)\<rparr>\<rparr>) =
           Inr (zero64, ''Transfer'', ''Transfer Bank | $100.00'') \<and>
         classify e (story\<lparr>Type := ''Standard_TRANSFER''\<rparr>) =
           Inr (zero64, ''Transfer'', ''Transfer '' @ Name (Note story) @ '' | '' @ Amount story) \<and>
         classify e (story\<lparr>Type := ''bank TrAnSfEr out''\<rparr>) =
           Inr (zero64, ''Transfer'', ''Transfer '' @ Name (Note story) @ '' | '' @ Amount story)"
proof -
  have any: "classify e' s =
      Inr (zero64, ''Transfer'', ''Transfer '' @ Name (Note s) @ '' | '' @ Amount s)"
    if "contains_ci (Type s) ''transfer''" for s e'
    using that by (simp add: classify_def Contains_transfer_iff)
  have same: "list_all2 same_letter m ''transfer''"
    if "m \<in> {''transfer'', ''TRANSFER'', ''TrAnSfEr''}" for m
    using that by (auto simp: same_letter_def upper_letters_def lower_letters_def)
  have "''p2p_transfer'' = ''p2p_'' @ ''transfer'' @ ''''"
    and "''Standard_TRANSFER'' = ''Standard_'' @ ''TRANSFER'' @ ''''"
    and "''bank TrAnSfEr out'' = ''bank '' @ ''TrAnSfEr'' @ '' out''"
    by simp_all
  with same have ci: "contains_ci ''p2p_transfer'' ''transfer''"
    "contains_ci ''Standard_TRANSFER'' ''transfer''"
    "contains_ci ''bank TrAnSfEr out'' ''transfer''"
    unfolding contains_ci_def by blast+
  have r: "record_of story
             (zero64, ''Transfer'', ''Transfer '' @ Name (Note story) @ '' | '' @ Amount story) =
           [''0.00'', Date story, ''Transfer'',
            ''Transfer '' @ Name (Note story) @ '' | '' @ Amount story]"
    by (simp add: record_of_def FormatFloat_zero64)
  have p: "classify (e\<lparr>ParseFloat32 := (\<lambda>s. None)\<rparr>) story = classify e story"
    using any [OF assms, of e] any [OF assms, of "e\<lparr>ParseFloat32 := (\<lambda>s. None)\<rparr>"]
    by simp
  have c1: "classify e (story\<lparr>Type := ''p2p_transfer'', Amount := ''$100.00'',
                          Note := \<lparr>Name = ''Bank'', Content = Content (Note story)\<rparr>\<rparr>) =
           Inr (zero64, ''Transfer'', ''Transfer Bank | $100.00'')"
    using any [of "story\<lparr>Type := ''p2p_transfer'', Amount := ''$100.00'',
      Note := \<lparr>Name = ''Bank'', Content = Content (Note story)\<rparr>\<rparr>" e] ci(1)
    by simp
  have c2: "classify e (story\<lparr>Type := ''Standard_TRANSFER''\<rparr>) =
           Inr (zero64, ''Transfer'', ''Transfer '' @ Name (Note story) @ '' | '' @ Amount story)"
    using any [of "story\<lparr>Type := ''Standard_TRANSFER''\<rparr>" e] ci(2) by simp
  have c3: "classify e (story\<lparr>Type := ''bank TrAnSfEr out''\<rparr>) =
           Inr (zero64, ''Transfer'', ''Transfer '' @ Name (Note story) @ '' | '' @ Amount story)"
    using any [of "story\<lparr>Type := ''bank TrAnSfEr out''\<rparr>" e] ci(3) by simp
  from any [OF assms, of e] r p c1 c2 c3 show ?thesis
    by (simp only: simp_thms)
qed

theorem transfer_classification_witness:
  "contains_ci ''Bank_Transfer'' ''transfer'' \<and>
   classify std_env
      (story0\<lparr>Type := ''Bank_Transfer'', Amount := ''$100.00'',
              Note := \<lparr>Name = ''Bank'', Content = ''''\<rparr>\<rparr>) =
     Inr (zero64, ''Transfer'', ''Transfer Bank | $100.00'') \<and>
   record_of
      (story0\<lparr>Type := ''Bank_Transfer'', Amount := ''$100.00'',
              Note := \<lparr>Name = ''Bank'', Content = ''''\<rparr>\<rparr>)
      (zero64, ''Transfer'', ''Transfer Bank | $100.00'') =
     [''0.00'', ''2024-10-04T13:28:52Z'', ''Transfer'', ''Transfer Bank | $100.00'']"
proof -
  have "list_all2 same_letter ''Transfer'' ''transfer''"
    by (simp add: same_letter_def upper_letters_def lower_letters_def)
  moreover have "''Bank_Transfer'' = ''Bank_'' @ ''Transfer'' @ ''''"
    by simp
  ultimately have h: "contains_ci ''Bank_Transfer'' ''transfer''"
    unfolding contains_ci_def by blast
  then have "contains_ci (Type (story0\<lparr>Type := ''Bank_Transfer'', Amount := ''$100.00'',
              Note := \<lparr>Name = ''Bank'', Content = ''''\<rparr>\<rparr>)) ''transfer''"
    by simp
  from transfer_classification [OF this, of std_env] h show ?thesis
    by (simp add: story0_def)
qed



text \<open>
  C7. A payment whose amount parses gets the type \<^verbatim>\<open>Payment\<close> and a note that
  depends on the sender: \<^verbatim>\<open>To <counterparty> | <note.content>\<close> with the receiver as
  counterparty when the display name of the sender is \<^verbatim>\<open>you\<close>, and
  \<^verbatim>\<open>From <counterparty> | <note.content>\<close> with the sender as counterparty otherwise.
  The counterparty is the display name, or the user name when the display name is
  empty.
\<close>

theorem payment_note:
  assumes "Type story = ''payment''"
    and "ParseFloat32 e (amountStr (Amount story)) = Some v"
  shows "classify e story =
           Inr (if Contains (Amount story) ''-'' then negate v else v, ''Payment'',
                if DisplayName (Sender (Title story)) = ''you''
                then ''To '' @ counterparty (Receiver (Title story)) @ '' | '' @
                     Content (Note story)
                else ''From '' @ counterparty (Sender (Title story)) @ '' | '' @
                     Content (Note story))"
  using assms payment_not_transfer
  by (simp add: classify_def counterparty_def Let_def)

theorem payment_note_witness:
  "Type story0 = ''payment'' \<and>
   ParseFloat32 std_env (amountStr (Amount story0)) = Some (Finite False 5) \<and>
   classify std_env story0 = Inr (Finite True 5, ''Payment'', ''To janedoe | lunch'') \<and>
   record_of story0 (Finite True 5, ''Payment'', ''To janedoe | lunch'') =
     [''-5.00'', ''2024-10-04T13:28:52Z'', ''Payment'', ''To janedoe | lunch'']"
proof -
  have t: "Type story0 = ''payment''"
    by (simp add: story0_def)
  have p: "ParseFloat32 std_env (amountStr (Amount story0)) = Some (Finite False 5)"
    by (simp add: story0_def std_env_def amountStr_examples ParseFloat32_5)
  have r: "record_of story0 (Finite True 5, ''Payment'', ''To janedoe | lunch'') =
     [''-5.00'', ''2024-10-04T13:28:52Z'', ''Payment'', ''To janedoe | lunch'']"
    by (simp add: record_of_def FormatFloat_5 story0_def)
  from payment_note [OF t p] t p r show ?thesis
    by (simp add: story0_def counterparty_def Contains_single)
qed

text \<open>
  C8, as amended. A transaction whose type neither contains \<^verbatim>\<open>transfer\<close> in any case
  nor is \<^verbatim>\<open>payment\<close> is classified without error, with the amount zero, printed
  \<^verbatim>\<open>0.00\<close>, and an empty type and note. What the driver does with it depends on its
  date as for any transaction: it is skipped with a warning when the date does not
  parse, the run stops when the date is before the cutoff, and otherwise the row
  \<^verbatim>\<open>0.00,<date>,,\<close> is written, unless the write fails.
\<close>

theorem unrecognised_type_row:
  assumes "\<not> contains_ci (Type story) ''transfer''"
    and "Type story \<noteq> ''payment''"
  shows "classify e story = Inr (zero64, '''', '''') \<and>
         record_of story (zero64, '''', '''') = [''0.00'', Date story, '''', ''''] \<and>
         processStory e D story w =
           (case parseTransactionDate e (Date story) of
              None \<Rightarrow> (Next, log_Printf (FailedParseTransactionDate (Date story)) w)
            | Some t \<Rightarrow>
                if t < D then (Return, Println ''Reached end date, stopping.'' w)
                else if write_fails e (length (records w))
                then (Exit, log_Printf FailedWriteTransaction w)
                else (Next,
                  Flush (w\<lparr>pending := pending w @ [[''0.00'', Date story, '''', '''']]\<rparr>)))"
proof -
  from assms(1) have "\<not> Contains (ToLower (Type story)) ''transfer''"
    by (simp add: Contains_transfer_iff)
  with assms(2) have c: "classify e story = Inr (zero64, '''', '''')"
    by (simp add: classify_def)
  have r: "record_of story (zero64, '''', '''') = [''0.00'', Date story, '''', '''']"
    by (simp add: record_of_def FormatFloat_zero64)
  from c r show ?thesis
    by (simp add: processStory_def csv_Write_def split: option.splits)
qed

theorem unrecognised_type_row_witness:
  "\<not> contains_ci ''charge'' ''transfer'' \<and> ''charge'' \<noteq> ''payment'' \<and>
   parseTransactionDate std_env ''2024-10-04T13:28:52Z'' = Some 1728048532000000000 \<and>
   \<not> (1728048532000000000 :: int) < 1609459200000000000 \<and>
   \<not> write_fails std_env (length (records world0)) \<and>
   classify std_env (story0\<lparr>Type := ''charge''\<rparr>) = Inr (zero64, '''', '''') \<and>
   processStory std_env 1609459200000000000 (story0\<lparr>Type := ''charge''\<rparr>) world0 =
     (Next, world0\<lparr>stdout := [Row [''0.00'', ''2024-10-04T13:28:52Z'', '''', '''']]\<rparr>)"
proof -
  have "\<not> Contains (ToLower ''charge'') ''transfer''"
    by (simp add: ToLower_def lower_def HasPrefix_def)
  then have h1: "\<not> contains_ci (Type (story0\<lparr>Type := ''charge''\<rparr>)) ''transfer''"
    by (simp add: Contains_transfer_iff)
  have h2: "Type (story0\<lparr>Type := ''charge''\<rparr>) \<noteq> ''payment''"
    by simp
  have d: "parseTransactionDate std_env ''2024-10-04T13:28:52Z'' = Some 1728048532000000000"
    by (simp add: parseTransactionDate_def std_env_def time_Parse_examples)
  have wf: "\<not> write_fails std_env (length (records world0))"
    by (simp add: std_env_def)
  from unrecognised_type_row [OF h1 h2, of std_env 1609459200000000000 world0]
    h1 d wf
  show ?thesis
    by (simp add: story0_def world0_def Flush_def)
qed

text \<open>
  C8 as stated fails: a transaction of type \<^verbatim>\<open>charge\<close> gets no row when its date does
  not parse, and none when its date is before the cutoff. In both runs the header is
  the only record.
\<close>

theorem unrecognised_type_row_counterexample:
  "\<not> Contains (ToLower ''charge'') ''transfer'' \<and> ''charge'' \<noteq> ''payment'' \<and>
   main std_env args0
     [Response 200 (Some \<lparr>NextID = '''',
        Stories = [story0\<lparr>Type := ''charge'', Date := ''yesterday''\<rparr>]\<rparr>)] =
     Some (0, \<lparr>stdout = [Line ''No more transactions to fetch.'',
                          Row [''Amount'', ''Date'', ''Note Name'', ''Note Date'']],
               stderr = [FailedParseTransactionDate ''yesterday''], pending = [],
               requests = [url0]\<rparr>) \<and>
   main std_env args0
     [Response 200 (Some \<lparr>NextID = '''',
        Stories = [story0\<lparr>Type := ''charge'', Date := ''2020-12-31T23:59:59Z''\<rparr>]\<rparr>)] =
     Some (0, \<lparr>stdout = [Line ''Reached end date, stopping.'',
                          Row [''Amount'', ''Date'', ''Note Name'', ''Note Date'']],
               stderr = [], pending = [], requests = [url0]\<rparr>)"
proof -
  have "\<not> Contains (ToLower ''charge'') ''transfer''"
    by (simp add: ToLower_def lower_def HasPrefix_def)
  then show ?thesis
    by (simp add: main_def args0_def url0_def processStory_def records_def Flush_def
          Println_def log_Printf_def sent_def request_url_def venmoApiUrl_def world0_def
          headers_def csv_Write_def story0_def parseTransactionDate_def std_env_def
          time_Parse_examples)
qed

text \<open>
  C10. The amount of a payment is parsed at the precision of a \<^verbatim>\<open>float32\<close> and
  printed with two decimals from the \<^verbatim>\<open>float64\<close> that holds it. The amount string
  \<^verbatim>\<open>$123456789.12\<close>, whose exact value is 12345678912/100, is parsed to 123456792
  and printed \<^verbatim>\<open>123456792.00\<close>.
\<close>

theorem float32_precision_loss:
  "(\<exists>note. classify std_env (story\<lparr>Type := ''payment'', Amount := ''$123456789.12''\<rparr>) =
      Inr (Finite False 123456792, ''Payment'', note)) \<and>
   readFloat (amountStr ''$123456789.12'') = Some (False, 12345678912 / 100) \<and>
   roundFloat32 (12345678912 / 100) = 123456792 \<and>
   FormatFloat (Finite False 123456792) = ''123456792.00'' \<and>
   FormatFloat (Finite False 123456792) \<noteq> ''123456789.12''"
proof -
  have c: "\<exists>note. classify std_env (story\<lparr>Type := ''payment'', Amount := ''$123456789.12''\<rparr>) =
      Inr (Finite False 123456792, ''Payment'', note)"
    using payment_not_transfer
    by (simp add: classify_def amountStr_examples std_env_def ParseFloat32_big
          Contains_single Let_def)
  have r: "readFloat (amountStr ''$123456789.12'') = Some (False, 12345678912 / 100)"
    by (simp add: amountStr_examples readFloat_def cutSign_def lower_def isDigit_def
          isHexLetter_def digitVal_def pow_def)
  have f: "roundFloat32 (12345678912 / 100) = 123456792"
    by (simp add: roundFloat32_def floorLog2_def bitlen.simps roundHalfEven_def pow_def
          Let_def floor_rat_numeral ceiling_rat_numeral)
  from c r f show ?thesis
    by (simp add: FormatFloat_big)
qed

subsection \<open>The driver on concrete transactions\<close>

lemma classify_story0:
  "classify std_env (story0\<lparr>Date := d\<rparr>) = Inr (Finite True 5, ''Payment'', ''To janedoe | lunch'')"
  using payment_not_transfer
  by (simp add: classify_def story0_def amountStr_examples std_env_def ParseFloat32_5
        Contains_single Let_def)

lemma classify_story0_NA:
  "classify std_env (story0\<lparr>Date := d, Amount := ''N/A''\<rparr>) = Inl (FailedParseAmount ''N/A'')"
  using payment_not_transfer
  by (simp add: classify_def story0_def amountStr_examples std_env_def ParseFloat32_NA)

lemma record_story0:
  "record_of (story0\<lparr>Date := d\<rparr>) (Finite True 5, ''Payment'', ''To janedoe | lunch'') =
     [''-5.00'', d, ''Payment'', ''To janedoe | lunch'']"
  by (simp add: record_of_def FormatFloat_5)

lemma parseTransactionDate_examples:
  "parseTransactionDate std_env ''2024-10-04T13:28:52Z'' = Some 1728048532000000000"
  "parseTransactionDate std_env ''2021-01-01T00:00:00Z'' = Some 1609459200000000000"
  "parseTransactionDate std_env ''2020-12-31T23:59:59Z'' = Some 1609459199000000000"
  "parseTransactionDate std_env ''yesterday'' = None"
  by (simp_all add: parseTransactionDate_def std_env_def time_Parse_examples)

lemma Date_story0: "Date story0 = ''2024-10-04T13:28:52Z''"
  by (simp add: story0_def)

lemma story0_Date_same: "story0\<lparr>Date := ''2024-10-04T13:28:52Z''\<rparr> = story0"
  by (simp add: story0_def)

lemma std_env_simps:
  "write_fails std_env n = False"
  "time_Parse std_env = std_time_Parse"
  "ParseFloat32 std_env = std_ParseFloat32"
  by (simp_all add: std_env_def)

lemmas run_simps = main_def args0_def url0_def processStory_def csv_Write_def records_def
  Flush_def Println_def log_Printf_def sent_def request_url_def venmoApiUrl_def world0_def
  headers_def std_env_simps parseTransactionDate_examples time_Parse_examples
  classify_story0 classify_story0_NA record_story0

subsection \<open>Skipped records\<close>

text \<open>
  C9. A transaction whose date parses under neither layout is skipped: a warning is
  logged, nothing is written, and the loop goes on with the next transaction of the
  page from a state in which only standard error has changed.
\<close>

theorem unparseable_date_skipped:
  assumes "time_Parse e RFC3339 (Date story) = None"
    and "time_Parse e ''2006-01-02T15:04:05'' (Date story) = None"
  shows "processStories e D (story # rest) w =
           processStories e D rest (log_Printf (FailedParseTransactionDate (Date story)) w) \<and>
         stdout (log_Printf (FailedParseTransactionDate (Date story)) w) = stdout w \<and>
         pending (log_Printf (FailedParseTransactionDate (Date story)) w) = pending w \<and>
         requests (log_Printf (FailedParseTransactionDate (Date story)) w) = requests w \<and>
         stderr (log_Printf (FailedParseTransactionDate (Date story)) w) =
           stderr w @ [FailedParseTransactionDate (Date story)]"
  using assms
  by (simp add: processStory_def parseTransactionDate_def log_Printf_def)

theorem unparseable_date_skipped_witness:
  "time_Parse std_env RFC3339 ''yesterday'' = None \<and>
   time_Parse std_env ''2006-01-02T15:04:05'' ''yesterday'' = None \<and>
   processStories std_env 1609459200000000000
     [story0, story0\<lparr>Date := ''yesterday''\<rparr>, story0\<lparr>Date := ''2021-01-01T00:00:00Z''\<rparr>] world0 =
     (Next, \<lparr>stdout = [Row [''-5.00'', ''2024-10-04T13:28:52Z'', ''Payment'', ''To janedoe | lunch''],
                        Row [''-5.00'', ''2021-01-01T00:00:00Z'', ''Payment'', ''To janedoe | lunch'']],
             stderr = [FailedParseTransactionDate ''yesterday''],
             pending = [], requests = []\<rparr>)"
proof -
  have h1: "time_Parse std_env RFC3339 (Date (story0\<lparr>Date := ''yesterday''\<rparr>)) = None"
    by (simp add: std_env_def time_Parse_examples)
  have h2: "time_Parse std_env ''2006-01-02T15:04:05'' (Date (story0\<lparr>Date := ''yesterday''\<rparr>)) = None"
    by (simp add: std_env_def time_Parse_examples)
  have first: "processStory std_env 1609459200000000000 story0 world0 =
      (Next, world0\<lparr>stdout := [Row [''-5.00'', ''2024-10-04T13:28:52Z'', ''Payment'',
                                      ''To janedoe | lunch'']]\<rparr>)"
    using classify_story0 [of "''2024-10-04T13:28:52Z''"] record_story0 [of "''2024-10-04T13:28:52Z''"]
    by (simp add: story0_Date_same processStory_def Date_story0 parseTransactionDate_examples
          csv_Write_def records_def Flush_def world0_def std_env_simps)
  have third: "processStory std_env 1609459200000000000 (story0\<lparr>Date := ''2021-01-01T00:00:00Z''\<rparr>)
       (log_Printf (FailedParseTransactionDate ''yesterday'')
         (world0\<lparr>stdout := [Row [''-5.00'', ''2024-10-04T13:28:52Z'', ''Payment'',
                                   ''To janedoe | lunch'']]\<rparr>)) =
     (Next, \<lparr>stdout = [Row [''-5.00'', ''2024-10-04T13:28:52Z'', ''Payment'', ''To janedoe | lunch''],
                        Row [''-5.00'', ''2021-01-01T00:00:00Z'', ''Payment'', ''To janedoe | lunch'']],
             stderr = [FailedParseTransactionDate ''yesterday''],
             pending = [], requests = []\<rparr>)"
    by (simp add: processStory_def parseTransactionDate_examples classify_story0 record_story0
          csv_Write_def records_def Flush_def log_Printf_def world0_def
          std_env_simps)
  from unparseable_date_skipped [OF h1 h2, of 1609459200000000000
      "[story0\<lparr>Date := ''2021-01-01T00:00:00Z''\<rparr>]"
      "world0\<lparr>stdout := [Row [''-5.00'', ''2024-10-04T13:28:52Z'', ''Payment'',
                                ''To janedoe | lunch'']]\<rparr>"]
    h1 h2 first third
  show ?thesis
    by simp
qed

subsection \<open>The cutoff\<close>

lemma classify_Inl:
  "classify e story = Inl d \<longleftrightarrow>
     Type story = ''payment'' \<and> ParseFloat32 e (amountStr (Amount story)) = None \<and>
     d = FailedParseAmount (amountStr (Amount story))"
  using payment_not_transfer
  by (auto simp: classify_def Let_def split: option.splits if_splits)

text \<open>
  C4, as amended. A transaction whose parsed date equals the cutoff is not before the
  cutoff: the comparison is strict, and the driver does not stop. Its row is written,
  unless it is a payment whose amount does not parse, which is skipped with a warning,
  or the write itself fails.
\<close>

theorem cutoff_boundary:
  assumes "parseTransactionDate e (Date story) = Some D"
  shows "\<not> before_cutoff e D story \<and>
         fst (processStory e D story w) \<noteq> Return \<and>
         (if Type story = ''payment'' \<and> ParseFloat32 e (amountStr (Amount story)) = None
          then processStory e D story w =
                 (Next, log_Printf (FailedParseAmount (amountStr (Amount story))) w)
          else \<exists>r. classify e story = Inr r \<and>
                 processStory e D story w =
                   (if write_fails e (length (records w))
                    then (Exit, log_Printf FailedWriteTransaction w)
                    else (Next, Flush (w\<lparr>pending := pending w @ [record_of story r]\<rparr>))))"
proof (cases "classify e story")
  case (Inl d)
  then have "Type story = ''payment'' \<and> ParseFloat32 e (amountStr (Amount story)) = None \<and>
     d = FailedParseAmount (amountStr (Amount story))"
    by (simp add: classify_Inl)
  with Inl assms show ?thesis
    by (simp add: before_cutoff_def processStory_def)
next
  case (Inr r)
  then have "\<not> (Type story = ''payment'' \<and> ParseFloat32 e (amountStr (Amount story)) = None)"
    using classify_Inl [of e story "FailedParseAmount (amountStr (Amount story))"] by auto
  with Inr assms show ?thesis
    by (auto simp: before_cutoff_def processStory_def csv_Write_def)
qed

theorem cutoff_boundary_witness:
  "parseTransactionDate std_env (Date (story0\<lparr>Date := ''2021-01-01T00:00:00Z''\<rparr>)) =
     Some 1609459200000000000 \<and>
   time_Parse std_env ''2006-01-02'' ''2021-01-01'' = Some 1609459200000000000 \<and>
   processStory std_env 1609459200000000000 (story0\<lparr>Date := ''2021-01-01T00:00:00Z''\<rparr>) world0 =
     (Next, world0\<lparr>stdout := [Row [''-5.00'', ''2021-01-01T00:00:00Z'', ''Payment'',
                                     ''To janedoe | lunch'']]\<rparr>)"
proof -
  let ?s = "story0\<lparr>Date := ''2021-01-01T00:00:00Z''\<rparr>"
  have h: "parseTransactionDate std_env (Date ?s) = Some 1609459200000000000"
    by (simp add: parseTransactionDate_examples)
  have a: "\<not> (Type ?s = ''payment'' \<and> ParseFloat32 std_env (amountStr (Amount ?s)) = None)"
    by (simp add: story0_def amountStr_examples std_env_simps ParseFloat32_5)
  from cutoff_boundary [OF h, of world0]
  have "if Type ?s = ''payment'' \<and> ParseFloat32 std_env (amountStr (Amount ?s)) = None
        then processStory std_env 1609459200000000000 ?s world0 =
               (Next, log_Printf (FailedParseAmount (amountStr (Amount ?s))) world0)
        else \<exists>r. classify std_env ?s = Inr r \<and>
               processStory std_env 1609459200000000000 ?s world0 =
                 (if write_fails std_env (length (records world0))
                  then (Exit, log_Printf FailedWriteTransaction world0)
                  else (Next, Flush (world0\<lparr>pending := pending world0 @ [record_of ?s r]\<rparr>)))"
    by blast
  with a obtain r where c: "classify std_env ?s = Inr r"
    and p: "processStory std_env 1609459200000000000 ?s world0 =
                 (if write_fails std_env (length (records world0))
                  then (Exit, log_Printf FailedWriteTransaction world0)
                  else (Next, Flush (world0\<lparr>pending := pending world0 @ [record_of ?s r]\<rparr>)))"
    by (simp only: if_False) blast
  from c have "r = (Finite True 5, ''Payment'', ''To janedoe | lunch'')"
    by (simp add: classify_story0)
  with p have "processStory std_env 1609459200000000000 ?s world0 =
     (Next, world0\<lparr>stdout := [Row [''-5.00'', ''2021-01-01T00:00:00Z'', ''Payment'',
                                     ''To janedoe | lunch'']]\<rparr>)"
    by (simp add: record_story0 std_env_simps Flush_def world0_def)
  with h show ?thesis
    by (simp add: std_env_simps time_Parse_examples)
qed

text \<open>
  C4 as stated fails: a payment dated exactly at the cutoff whose amount is \<^verbatim>\<open>N/A\<close>
  gets no row. The run ends normally with the header as its only record.
\<close>

theorem cutoff_boundary_counterexample:
  "parseTransactionDate std_env ''2021-01-01T00:00:00Z'' =
     time_Parse std_env ''2006-01-02'' ''2021-01-01'' \<and>
   main std_env args0
     [Response 200 (Some \<lparr>NextID = '''',
        Stories = [story0\<lparr>Date := ''2021-01-01T00:00:00Z'', Amount := ''N/A''\<rparr>]\<rparr>)] =
     Some (0, \<lparr>stdout = [Line ''No more transactions to fetch.'',
                          Row [''Amount'', ''Date'', ''Note Name'', ''Note Date'']],
               stderr = [FailedParseAmount ''N/A''], pending = [], requests = [url0]\<rparr>)"
  by (simp add: run_simps)

subsection \<open>The status of a response\<close>

lemma processStory_stderr:
  "processStory e D s w = (c, w') \<Longrightarrow>
   \<exists>extra. stderr w' = stderr w @ extra \<and> (\<forall>code. FailedFetch code \<notin> set extra)"
  by (auto simp: processStory_def csv_Write_def log_Printf_def Println_def Flush_def classify_Inl
        split: option.splits sum.splits if_splits)

lemma processStories_stderr:
  "processStories e D ss w = (c, w') \<Longrightarrow>
   \<exists>extra. stderr w' = stderr w @ extra \<and> (\<forall>code. FailedFetch code \<notin> set extra)"
proof (induction ss arbitrary: w)
  case Nil
  then show ?case by simp
next
  case (Cons s ss)
  obtain c1 w1 where step: "processStory e D s w = (c1, w1)"
    by (cases "processStory e D s w")
  from processStory_stderr [OF step]
  obtain x1 where x1: "stderr w1 = stderr w @ x1" "\<forall>code. FailedFetch code \<notin> set x1"
    by blast
  show ?case
  proof (cases c1)
    case Next
    with Cons.prems step have "processStories e D ss w1 = (c, w')" by simp
    from Cons.IH [OF this]
    obtain x2 where "stderr w' = stderr w1 @ x2" "\<forall>code. FailedFetch code \<notin> set x2"
      by blast
    with x1 have "stderr w' = stderr w @ (x1 @ x2) \<and> (\<forall>code. FailedFetch code \<notin> set (x1 @ x2))"
      by simp
    then show ?thesis by blast
  next
    case Return
    with Cons.prems step have "w' = w1" by simp
    with x1 show ?thesis by blast
  next
    case Exit
    with Cons.prems step have "w' = w1" by simp
    with x1 show ?thesis by blast
  qed
qed

text \<open>The loop never logs a failed fetch with status 200.\<close>

lemma fetchLoop_stderr:
  "fetchLoop e ext D rs nextID w = Some (n, w') \<Longrightarrow>
   \<exists>extra. stderr w' = stderr w @ extra \<and> FailedFetch 200 \<notin> set extra"
proof (induction rs arbitrary: w nextID)
  case Nil
  then show ?case by simp
next
  case (Cons r rs)
  show ?case
  proof (cases r)
    case NewRequestError
    with Cons.prems show ?thesis by (auto simp: log_Printf_def)
  next
    case DoError
    with Cons.prems show ?thesis by (auto simp: log_Printf_def sent_def)
  next
    case ReadAllError
    with Cons.prems show ?thesis by (auto simp: log_Printf_def sent_def)
  next
    case (Response code body)
    show ?thesis
    proof (cases "code \<noteq> 200")
      case True
      with Response Cons.prems show ?thesis by (auto simp: log_Printf_def sent_def)
    next
      case ok: False
      show ?thesis
      proof (cases body)
        case None
        with ok Response Cons.prems show ?thesis by (auto simp: log_Printf_def sent_def)
      next
        case (Some data)
        obtain c w2 where run:
          "processStories e D (Stories data) (sent (request_url ext nextID) w) = (c, w2)"
          by (cases "processStories e D (Stories data) (sent (request_url ext nextID) w)")
        from processStories_stderr [OF run]
        obtain x1 where x1: "stderr w2 = stderr w @ x1" "\<forall>code. FailedFetch code \<notin> set x1"
          by (auto simp: sent_def)
        show ?thesis
        proof (cases c)
          case Return
          with ok Response Some run Cons.prems have "w' = Flush w2" by simp
          with x1 have "stderr w' = stderr w @ x1 \<and> FailedFetch 200 \<notin> set x1"
            by (simp add: Flush_def)
          then show ?thesis by blast
        next
          case Exit
          with ok Response Some run Cons.prems have "w' = w2" by simp
          with x1 show ?thesis by blast
        next
          case Next
          show ?thesis
          proof (cases "NextID data = ''''")
            case True
            with Next ok Response Some run Cons.prems
            have "w' = Flush (Println ''No more transactions to fetch.'' w2)" by simp
            with x1 have "stderr w' = stderr w @ x1 \<and> FailedFetch 200 \<notin> set x1"
              by (simp add: Flush_def Println_def)
            then show ?thesis by blast
          next
            case False
            with Next ok Response Some run Cons.prems
            have "fetchLoop e ext D rs (NextID data) w2 = Some (n, w')" by simp
            from Cons.IH [OF this]
            obtain x2 where "stderr w' = stderr w2 @ x2" "FailedFetch 200 \<notin> set x2"
              by blast
            with x1 have "stderr w' = stderr w @ (x1 @ x2) \<and> FailedFetch 200 \<notin> set (x1 @ x2)"
              by simp
            then show ?thesis by blast
          qed
        qed
      qed
    qed
  qed
qed

text \<open>
  C3, as amended. When a response has arrived the run ends at the status check, with
  exit status 1, the message of the failed fetch as its last log line, one request
  made and nothing of the page processed, exactly when the status code is not 200.
  A response with status 200 goes on to the decoding of its body, and a decoded page
  to the processing of its transactions.
\<close>

theorem status_check:
  "((\<exists>w'. fetchLoop e ext D (Response code body # rs) nextID w = Some (1, w') \<and>
          stderr w' = stderr w @ [FailedFetch code]) \<longleftrightarrow> code \<noteq> 200) \<and>
   fetchLoop e ext D (Response code body # rs) nextID w =
     (if code \<noteq> 200
      then Some (1, log_Printf (FailedFetch code) (sent (request_url ext nextID) w))
      else fetchLoop e ext D (Response 200 body # rs) nextID w) \<and>
   stdout (log_Printf (FailedFetch code) (sent (request_url ext nextID) w)) = stdout w \<and>
   pending (log_Printf (FailedFetch code) (sent (request_url ext nextID) w)) = pending w \<and>
   requests (log_Printf (FailedFetch code) (sent (request_url ext nextID) w)) =
     requests w @ [request_url ext nextID] \<and>
   fetchLoop e ext D (Response 200 (Some data) # rs) nextID w =
     (case processStories e D (Stories data) (sent (request_url ext nextID) w) of
        (Next, w') \<Rightarrow>
          if NextID data = ''''
          then Some (0, Flush (Println ''No more transactions to fetch.'' w'))
          else fetchLoop e ext D rs (NextID data) w'
      | (Return, w') \<Rightarrow> Some (0, Flush w')
      | (Exit, w') \<Rightarrow> Some (1, w'))"
proof -
  have iff: "(\<exists>w'. fetchLoop e ext D (Response code body # rs) nextID w = Some (1, w') \<and>
          stderr w' = stderr w @ [FailedFetch code]) \<longleftrightarrow> code \<noteq> 200"
  proof
    assume "\<exists>w'. fetchLoop e ext D (Response code body # rs) nextID w = Some (1, w') \<and>
          stderr w' = stderr w @ [FailedFetch code]"
    then obtain w' where run: "fetchLoop e ext D (Response code body # rs) nextID w = Some (1, w')"
      and log: "stderr w' = stderr w @ [FailedFetch code]"
      by blast
    from fetchLoop_stderr [OF run]
    obtain extra where "stderr w' = stderr w @ extra" "FailedFetch 200 \<notin> set extra"
      by blast
    with log show "code \<noteq> 200" by auto
  next
    assume "code \<noteq> 200"
    then show "\<exists>w'. fetchLoop e ext D (Response code body # rs) nextID w = Some (1, w') \<and>
          stderr w' = stderr w @ [FailedFetch code]"
      by (simp add: log_Printf_def sent_def)
  qed
  have step: "fetchLoop e ext D (Response code body # rs) nextID w =
     (if code \<noteq> 200
      then Some (1, log_Printf (FailedFetch code) (sent (request_url ext nextID) w))
      else fetchLoop e ext D (Response 200 body # rs) nextID w)"
    by simp
  have page: "fetchLoop e ext D (Response 200 (Some data) # rs) nextID w =
     (case processStories e D (Stories data) (sent (request_url ext nextID) w) of
        (Next, w') \<Rightarrow>
          if NextID data = ''''
          then Some (0, Flush (Println ''No more transactions to fetch.'' w'))
          else fetchLoop e ext D rs (NextID data) w'
      | (Return, w') \<Rightarrow> Some (0, Flush w')
      | (Exit, w') \<Rightarrow> Some (1, w'))"
    by (simp split: prod.splits control.splits)
  from iff step page show ?thesis
    by (simp add: log_Printf_def sent_def)
qed

text \<open>
  C3 as stated fails: a response with the success status 203 ends the run with exit
  status 1; its transaction is not processed and nothing reaches standard output.
\<close>

theorem status_check_counterexample:
  "(200 :: int) \<le> 203 \<and> (203 :: int) < 300 \<and>
   main std_env args0 [Response 203 (Some \<lparr>NextID = '''', Stories = [story0]\<rparr>)] =
     Some (1, \<lparr>stdout = [], stderr = [FailedFetch 203],
               pending = [[''Amount'', ''Date'', ''Note Name'', ''Note Date'']],
               requests = [url0]\<rparr>)"
  by (simp add: run_simps)

subsection \<open>What reaches standard output\<close>

text \<open>
  C2. The two status messages are printed with \<^verbatim>\<open>fmt.Println\<close>, on standard output,
  among the CSV records: a run that reaches the end of the feed ends its output with
  the line \<^verbatim>\<open>No more transactions to fetch.\<close>, and a run that meets a transaction
  before the cutoff with the line \<^verbatim>\<open>Reached end date, stopping.\<close> Only the warnings
  of package log go to standard error.
\<close>

theorem status_lines_on_stdout:
  "main std_env args0 [Response 200 (Some \<lparr>NextID = '''', Stories = [story0]\<rparr>)] =
     Some (0, \<lparr>stdout = [Row [''Amount'', ''Date'', ''Note Name'', ''Note Date''],
                          Row [''-5.00'', ''2024-10-04T13:28:52Z'', ''Payment'',
                               ''To janedoe | lunch''],
                          Line ''No more transactions to fetch.''],
               stderr = [], pending = [], requests = [url0]\<rparr>) \<and>
   main std_env args0
     [Response 200 (Some \<lparr>NextID = ''next'',
        Stories = [story0, story0\<lparr>Date := ''2020-12-31T23:59:59Z''\<rparr>]\<rparr>)] =
     Some (0, \<lparr>stdout = [Row [''Amount'', ''Date'', ''Note Name'', ''Note Date''],
                          Row [''-5.00'', ''2024-10-04T13:28:52Z'', ''Payment'',
                               ''To janedoe | lunch''],
                          Line ''Reached end date, stopping.''],
               stderr = [], pending = [], requests = [url0]\<rparr>)"
proof -
  have c: "classify std_env story0 = Inr (Finite True 5, ''Payment'', ''To janedoe | lunch'')"
    using classify_story0 [of "''2024-10-04T13:28:52Z''"] by (simp add: story0_Date_same)
  have r: "record_of story0 (Finite True 5, ''Payment'', ''To janedoe | lunch'') =
      [''-5.00'', ''2024-10-04T13:28:52Z'', ''Payment'', ''To janedoe | lunch'']"
    using record_story0 [of "''2024-10-04T13:28:52Z''"] by (simp add: story0_Date_same)
  show ?thesis
    by (simp add: run_simps c r Date_story0)
qed

subsection \<open>The rows of a run\<close>

text \<open>
  C1, as amended. Take a feed whose pages all arrive: every page but the last has a
  next cursor and no transaction before the cutoff, and the last page has an empty
  cursor or a transaction before the cutoff. When the writes succeed the run ends with
  exit status 0; after the header its records are the rows of the transactions met
  before the first transaction before the cutoff, in order, one for each transaction
  whose date parses and which is not a payment with an amount that does not parse;
  the transactions after the first one before the cutoff give no row; and the run
  makes one request for each of these pages and none for the outcomes that follow.
\<close>

theorem rows_up_to_cutoff:
  assumes "\<forall>n. \<not> write_fails e n"
    and "time_Parse e ''2006-01-02'' endDate = Some D"
    and "pages \<noteq> []"
    and "\<forall>p \<in> set (butlast pages).
           NextID p \<noteq> '''' \<and> (\<forall>s \<in> set (Stories p). \<not> before_cutoff e D s)"
    and "NextID (last pages) = '''' \<or> (\<exists>s \<in> set (Stories (last pages)). before_cutoff e D s)"
  shows "\<exists>w'. main e [prog, externalId, endDate, cookie] (map fetched pages @ rest) = Some (0, w') \<and>
           rows_of (stdout w') =
             headers # List.map_filter (row_of e)
               (takeWhile (\<lambda>s. \<not> before_cutoff e D s) (concat (map Stories pages))) \<and>
           pending w' = [] \<and>
           length (requests w') = length pages"
proof -
  from assms(1) have wr: "\<And>n. \<not> write_fails e n" by simp
  let ?w = "world0\<lparr>pending := pending world0 @ [headers]\<rparr>"
  from fetchLoop_run [OF wr assms(3) assms(4) assms(5), of externalId rest "''''" ?w]
  obtain w' where run: "fetchLoop e externalId D (map fetched pages @ rest) '''' ?w = Some (0, w')"
    and rows: "rows_of (stdout w') = records ?w @ rows_until_cutoff e D (concat (map Stories pages))"
    and pend: "pending w' = []"
    and reqs: "length (requests w') = length (requests ?w) + length pages"
    by blast
  from run wr assms(2)
  have "main e [prog, externalId, endDate, cookie] (map fetched pages @ rest) = Some (0, w')"
    by (simp add: main_def csv_Write_def)
  with rows pend reqs show ?thesis
    by (simp add: records_def world0_def rows_until_cutoff_def)
qed

theorem rows_up_to_cutoff_witness:
  "time_Parse std_env ''2006-01-02'' ''2021-01-01'' = Some 1609459200000000000 \<and>
   before_cutoff std_env 1609459200000000000 (story0\<lparr>Date := ''2020-12-31T23:59:59Z''\<rparr>) \<and>
   (\<exists>w'. main std_env args0
       [Response 200 (Some \<lparr>NextID = ''page2'',
          Stories = [story0, story0\<lparr>Date := ''yesterday''\<rparr>]\<rparr>),
        Response 200 (Some \<lparr>NextID = ''page3'',
          Stories = [story0\<lparr>Date := ''2021-01-01T00:00:00Z''\<rparr>,
                     story0\<lparr>Date := ''2020-12-31T23:59:59Z''\<rparr>, story0]\<rparr>),
        DoError] = Some (0, w') \<and>
      rows_of (stdout w') =
        [[''Amount'', ''Date'', ''Note Name'', ''Note Date''],
         [''-5.00'', ''2024-10-04T13:28:52Z'', ''Payment'', ''To janedoe | lunch''],
         [''-5.00'', ''2021-01-01T00:00:00Z'', ''Payment'', ''To janedoe | lunch'']] \<and>
      length (requests w') = 2)"
proof -
  let ?D = "1609459200000000000 :: int"
  let ?p1 = "\<lparr>NextID = ''page2'', Stories = [story0, story0\<lparr>Date := ''yesterday''\<rparr>]\<rparr>"
  let ?p2 = "\<lparr>NextID = ''page3'',
          Stories = [story0\<lparr>Date := ''2021-01-01T00:00:00Z''\<rparr>,
                     story0\<lparr>Date := ''2020-12-31T23:59:59Z''\<rparr>, story0]\<rparr>"
  have c0: "classify std_env story0 = Inr (Finite True 5, ''Payment'', ''To janedoe | lunch'')"
    using classify_story0 [of "''2024-10-04T13:28:52Z''"] by (simp add: story0_Date_same)
  have r0: "record_of story0 (Finite True 5, ''Payment'', ''To janedoe | lunch'') =
      [''-5.00'', ''2024-10-04T13:28:52Z'', ''Payment'', ''To janedoe | lunch'']"
    using record_story0 [of "''2024-10-04T13:28:52Z''"] by (simp add: story0_Date_same)
  have b: "\<not> before_cutoff std_env ?D story0"
      "\<not> before_cutoff std_env ?D (story0\<lparr>Date := ''yesterday''\<rparr>)"
      "\<not> before_cutoff std_env ?D (story0\<lparr>Date := ''2021-01-01T00:00:00Z''\<rparr>)"
      "before_cutoff std_env ?D (story0\<lparr>Date := ''2020-12-31T23:59:59Z''\<rparr>)"
    by (simp_all add: before_cutoff_def Date_story0 parseTransactionDate_examples)
  have h1: "\<forall>n. \<not> write_fails std_env n"
    by (simp add: std_env_simps)
  have h2: "time_Parse std_env ''2006-01-02'' ''2021-01-01'' = Some ?D"
    by (simp add: std_env_simps time_Parse_examples)
  have h3: "[?p1, ?p2] \<noteq> []"
    by simp
  have h4: "\<forall>p \<in> set (butlast [?p1, ?p2]).
      NextID p \<noteq> '''' \<and> (\<forall>s \<in> set (Stories p). \<not> before_cutoff std_env ?D s)"
    using b by simp
  have h5: "NextID (last [?p1, ?p2]) = '''' \<or>
      (\<exists>s \<in> set (Stories (last [?p1, ?p2])). before_cutoff std_env ?D s)"
    using b by simp
  have rows: "List.map_filter (row_of std_env)
      (takeWhile (\<lambda>s. \<not> before_cutoff std_env ?D s) (concat (map Stories [?p1, ?p2]))) =
      [[''-5.00'', ''2024-10-04T13:28:52Z'', ''Payment'', ''To janedoe | lunch''],
       [''-5.00'', ''2021-01-01T00:00:00Z'', ''Payment'', ''To janedoe | lunch'']]"
    using b
    by (simp add: List.map_filter_def row_of_def Date_story0 parseTransactionDate_examples
          c0 r0 classify_story0 record_story0)
  from rows_up_to_cutoff [OF h1 h2 h3 h4 h5, of "''main''" "''1234567890''" "''cookie''" "[DoError]"]
  obtain w' where "main std_env [''main'', ''1234567890'', ''2021-01-01'', ''cookie'']
        (map fetched [?p1, ?p2] @ [DoError]) = Some (0, w')"
    and "rows_of (stdout w') = headers # List.map_filter (row_of std_env)
      (takeWhile (\<lambda>s. \<not> before_cutoff std_env ?D s) (concat (map Stories [?p1, ?p2])))"
    and "length (requests w') = length [?p1, ?p2]"
    by blast
  with rows have "main std_env args0 [Response 200 (Some ?p1), Response 200 (Some ?p2), DoError] =
      Some (0, w') \<and>
      rows_of (stdout w') =
        [[''Amount'', ''Date'', ''Note Name'', ''Note Date''],
         [''-5.00'', ''2024-10-04T13:28:52Z'', ''Payment'', ''To janedoe | lunch''],
         [''-5.00'', ''2021-01-01T00:00:00Z'', ''Payment'', ''To janedoe | lunch'']] \<and>
      length (requests w') = 2"
    by (simp add: args0_def fetched_def headers_def)
  then have "\<exists>w'. main std_env args0
        [Response 200 (Some ?p1), Response 200 (Some ?p2), DoError] = Some (0, w') \<and>
      rows_of (stdout w') =
        [[''Amount'', ''Date'', ''Note Name'', ''Note Date''],
         [''-5.00'', ''2024-10-04T13:28:52Z'', ''Payment'', ''To janedoe | lunch''],
         [''-5.00'', ''2021-01-01T00:00:00Z'', ''Payment'', ''To janedoe | lunch'']] \<and>
      length (requests w') = 2"
    by blast
  with h2 b(4) show ?thesis
    by simp
qed

text \<open>
  C1 as stated fails: a page with one payment dated after the cutoff whose amount is
  \<^verbatim>\<open>N/A\<close> gives no row; the header is the only record of the run.
\<close>

theorem rows_up_to_cutoff_counterexample:
  "parseTransactionDate std_env ''2024-10-04T13:28:52Z'' = Some 1728048532000000000 \<and>
   time_Parse std_env ''2006-01-02'' ''2021-01-01'' = Some 1609459200000000000 \<and>
   \<not> (1728048532000000000 :: int) < 1609459200000000000 \<and>
   main std_env args0
     [Response 200 (Some \<lparr>NextID = '''',
        Stories = [story0\<lparr>Date := ''2024-10-04T13:28:52Z'', Amount := ''N/A''\<rparr>]\<rparr>)] =
     Some (0, \<lparr>stdout = [Line ''No more transactions to fetch.'',
                          Row [''Amount'', ''Date'', ''Note Name'', ''Note Date'']],
               stderr = [FailedParseAmount ''N/A''], pending = [], requests = [url0]\<rparr>)"
  by (simp add: run_simps)

end
